theory Spec2Isabelle
  imports Complex_Main
begin

section \<open>JavaScript values as the callback handlers use them\<close>

text \<open>
  The handlers of \<^verbatim>\<open>src/controllers/click.controller.js\<close> receive an untyped request
  body and rely on JavaScript's coercions: \<^verbatim>\<open>!x\<close> (ToBoolean), \<^verbatim>\<open>x == null\<close>,
  \<^verbatim>\<open>Number(x)\<close> and \<^verbatim>\<open>a !== b\<close>. Body fields are modelled as primitive values; a field
  that is absent from the body reads as \<open>JUndefined\<close>, as destructuring gives it.
  Numbers are IEEE doubles in the source. Finite ones are represented by the rational they
  denote (so \<open>+0\<close> and \<open>-0\<close>, which \<^verbatim>\<open>===\<close>, \<^verbatim>\<open>!\<close> and \<^verbatim>\<open><\<close> do not tell apart, are
  one value), next to \<open>NaN\<close> and the two infinities.
\<close>

datatype jsnum = NaN | Fin rat | PosInf | NegInf

datatype jsval = JUndefined | JNull | JBool bool | JNum jsnum | JStr string

text \<open>ToBoolean: \<^verbatim>\<open>!v\<close> is \<open>\<not> truthy v\<close>.\<close>

fun truthy :: "jsval \<Rightarrow> bool" where
  "truthy JUndefined = False"
| "truthy JNull = False"
| "truthy (JBool b) = b"
| "truthy (JNum n) = (n \<noteq> NaN \<and> n \<noteq> Fin 0)"
| "truthy (JStr s) = (s \<noteq> [])"

text \<open>\<^verbatim>\<open>v == null\<close> holds for \<^verbatim>\<open>null\<close> and \<^verbatim>\<open>undefined\<close> only.\<close>

definition is_nullish :: "jsval \<Rightarrow> bool" where
  "is_nullish v = (v = JUndefined \<or> v = JNull)"

text \<open>
  \<^verbatim>\<open>Number(v)\<close>. On a string it is ECMAScript's StringToNumber, which is taken as a
  parameter \<open>s2n\<close>: the theorems below hold for every such function.
\<close>

fun Number :: "(string \<Rightarrow> jsnum) \<Rightarrow> jsval \<Rightarrow> jsnum" where
  "Number s2n JUndefined = NaN"
| "Number s2n JNull = Fin 0"
| "Number s2n (JBool b) = (if b then Fin 1 else Fin 0)"
| "Number s2n (JNum n) = n"
| "Number s2n (JStr s) = s2n s"

text \<open>\<^verbatim>\<open>a === b\<close> on two numbers: \<open>NaN\<close> equals nothing, itself included.\<close>

definition num_seq :: "jsnum \<Rightarrow> jsnum \<Rightarrow> bool" where
  "num_seq a b = (a \<noteq> NaN \<and> a = b)"

text \<open>\<^verbatim>\<open>n < 0\<close> on a number.\<close>

fun lt_zero :: "jsnum \<Rightarrow> bool" where
  "lt_zero NaN = False"
| "lt_zero (Fin r) = (r < 0)"
| "lt_zero PosInf = False"
| "lt_zero NegInf = True"

text \<open>\<^verbatim>\<open>typeof v === 'number'\<close>.\<close>

fun is_number :: "jsval \<Rightarrow> bool" where
  "is_number (JNum n) = True"
| "is_number v = False"

text \<open>A JSON object literal, as the handlers pass it to \<^verbatim>\<open>res.json\<close>: keys in source order.\<close>

type_synonym json_obj = "(string \<times> jsval) list"

text \<open>Property access \<^verbatim>\<open>obj.key\<close>: \<^verbatim>\<open>undefined\<close> when the key is missing.\<close>

definition get_prop :: "json_obj \<Rightarrow> string \<Rightarrow> jsval" where
  "get_prop obj k = (case map_of obj k of None \<Rightarrow> JUndefined | Some v \<Rightarrow> v)"

section \<open>Data model\<close>

text \<open>
  A row of the \<^verbatim>\<open>payments\<close> table (\<^verbatim>\<open>src/db/migrations.sql\<close>). \<open>pay_id\<close> is the column
  \<^verbatim>\<open>id\<close> and \<open>pay_amount\<close> the column \<^verbatim>\<open>amount\<close> (renamed: \<open>id\<close> is a HOL constant and
  \<open>amount\<close> is also a body field); the other fields carry their column's name. \<open>pay_amount\<close>
  and \<open>click_payment_id\<close> are kept as the JavaScript values the driver hands to the
  controller, which applies \<^verbatim>\<open>Number\<close> and \<^verbatim>\<open>!\<close> to them. The two timestamps are left out:
  the handlers only pass \<^verbatim>\<open>created_at\<close> on to the gateway client.
\<close>

datatype status = PENDING | PAID | CANCELED | FAILED

record payment =
  pay_id :: int
  user_id :: int
  pay_amount :: jsval
  click_merchant_trans_id :: string
  click_payment_id :: jsval
  status :: status

text \<open>
  The fields the handlers destructure from \<^verbatim>\<open>req.body\<close>, which the body parsers of
  \<^verbatim>\<open>src/app.js\<close> have made an object.
\<close>

record body =
  click_trans_id :: jsval
  service_id :: jsval
  merchant_trans_id :: jsval
  merchant_prepare_id :: jsval
  amount :: jsval
  sign_time :: jsval
  sign_string :: jsval
  error :: jsval
  action :: jsval

text \<open>The argument object of \<^verbatim>\<open>buildClickMd5Signature\<close>.\<close>

record sign_args =
  clickTransId :: jsval
  serviceId :: jsval
  secretKey :: jsval
  merchantTransId :: jsval
  merchantPrepareId :: jsval
  amount_arg :: jsval
  action_arg :: jsval
  signTime :: jsval

text \<open>
  What the controller imports and does not define: \<^verbatim>\<open>config.click.serviceId\<close>,
  \<^verbatim>\<open>config.click.secretKey\<close>, the digest \<^verbatim>\<open>buildClickMd5Signature\<close> of
  \<^verbatim>\<open>utils/clickAuth\<close> (a string for every argument object), and the language's
  StringToNumber. All four are parameters.
\<close>

record env =
  click_serviceId :: jsval
  click_secretKey :: jsval
  buildClickMd5Signature :: "sign_args \<Rightarrow> string"
  StringToNumber :: "string \<Rightarrow> jsnum"

abbreviation num :: "env \<Rightarrow> jsval \<Rightarrow> jsnum" where
  "num e v \<equiv> Number (StringToNumber e) v"

text \<open>
  The repository module \<^verbatim>\<open>repositories/payment.repository.js\<close> is imported by the
  controller and is not among the sources. Its three operations are parameters of every
  handler, over a store of any type \<open>'db\<close>: the two reads return a row or nothing, and
  \<^verbatim>\<open>updatePaymentStatusById(id, status, { clickPaymentId })\<close> returns the new store and the
  row it answers with. The last argument is \<open>JUndefined\<close> where the call omits it.
\<close>

record 'db repo =
  getPaymentById :: "'db \<Rightarrow> int \<Rightarrow> payment option"
  getPaymentByMerchantTransId :: "'db \<Rightarrow> jsval \<Rightarrow> payment option"
  updatePaymentStatusById :: "'db \<Rightarrow> int \<Rightarrow> status \<Rightarrow> jsval \<Rightarrow> 'db \<times> payment option"

section \<open>The callback handlers\<close>

text \<open>\<^verbatim>\<open>CLICK_ACTION\<close>.\<close>

definition CLICK_ACTION_PREPARE :: jsnum where
  "CLICK_ACTION_PREPARE = Fin 0"

definition CLICK_ACTION_COMPLETE :: jsnum where
  "CLICK_ACTION_COMPLETE = Fin 1"

text \<open>\<^verbatim>\<open>clickError(res, code, note)\<close>: the object sent with \<^verbatim>\<open>res.json\<close>.\<close>

definition clickError :: "int \<Rightarrow> string \<Rightarrow> json_obj" where
  "clickError code note = [(''error'', JNum (Fin (of_int code))), (''error_note'', JStr note)]"

text \<open>\<^verbatim>\<open>clickSuccess(res, payload)\<close>; no payload of the controller has an \<^verbatim>\<open>error\<close> key.\<close>

definition clickSuccess :: "json_obj \<Rightarrow> json_obj" where
  "clickSuccess payload = [(''error'', JNum (Fin 0)), (''error_note'', JStr ''Success'')] @ payload"

text \<open>\<^verbatim>\<open>payment.id\<close> as the JavaScript number the driver returns.\<close>

definition id_num :: "payment \<Rightarrow> jsnum" where
  "id_num p = Fin (of_int (pay_id p))"

text \<open>
  \<^verbatim>\<open>clickPrepare\<close> (lines 136 to 212). The result is the JSON object of the response and
  the store after the call. The handler calls no repository operation but the read.
\<close>

definition prepare_sign_args :: "env \<Rightarrow> body \<Rightarrow> sign_args" where
  "prepare_sign_args e b =
     \<lparr> clickTransId = click_trans_id b, serviceId = service_id b,
       secretKey = click_secretKey e, merchantTransId = merchant_trans_id b,
       merchantPrepareId = JUndefined, amount_arg = amount b, action_arg = action b,
       signTime = sign_time b \<rparr>"

definition clickPrepare :: "env \<Rightarrow> 'db repo \<Rightarrow> body \<Rightarrow> 'db \<Rightarrow> json_obj \<times> 'db" where
  "clickPrepare e r b db =
     (if \<not> truthy (click_trans_id b) \<or> \<not> truthy (service_id b) \<or>
         \<not> truthy (merchant_trans_id b) \<or> \<not> truthy (amount b) \<or> is_nullish (action b)
      then (clickError (- 8) ''Missing required parameters'', db)
      else if \<not> num_seq (num e (service_id b)) (num e (click_serviceId e))
      then (clickError (- 8) ''Invalid service_id'', db)
      else if \<not> num_seq (num e (action b)) CLICK_ACTION_PREPARE
      then (clickError (- 3) ''Invalid action'', db)
      else if JStr (buildClickMd5Signature e (prepare_sign_args e b)) \<noteq> sign_string b
      then (clickError (- 1) ''Invalid signature'', db)
      else
        (case getPaymentByMerchantTransId r db (merchant_trans_id b) of
           None \<Rightarrow> (clickError (- 5) ''Payment not found'', db)
         | Some payment \<Rightarrow>
             if status payment = PAID
             then (clickError (- 4) ''Payment already processed'', db)
             else if \<not> num_seq (num e (pay_amount payment)) (num e (amount b))
             then (clickError (- 2) ''Invalid amount'', db)
             else
               ([(''click_trans_id'', click_trans_id b),
                 (''merchant_trans_id'', merchant_trans_id b),
                 (''merchant_prepare_id'', JNum (id_num payment)),
                 (''error'', JNum (Fin 0)),
                 (''error_note'', JStr ''Success'')], db)))"

text \<open>
  \<^verbatim>\<open>clickComplete\<close> (lines 214 to 313). The handler suspends at its awaited repository
  calls. It is split at the awaited \<^verbatim>\<open>updatePaymentStatusById\<close>: \<open>clickComplete_until_update\<close>
  runs the checks, the read included, and ends either with the reply of an early
  \<^verbatim>\<open>return\<close> or with the update the handler is about to issue and the reply it sends once
  the update has returned; \<open>clickComplete_resume\<close> issues that update and replies. The
  handler ignores what the update returns.
\<close>

datatype continuation = Reply json_obj | UpdateThenReply int status jsval json_obj

definition complete_sign_args :: "env \<Rightarrow> body \<Rightarrow> sign_args" where
  "complete_sign_args e b =
     \<lparr> clickTransId = click_trans_id b, serviceId = service_id b,
       secretKey = click_secretKey e, merchantTransId = merchant_trans_id b,
       merchantPrepareId = merchant_prepare_id b, amount_arg = amount b,
       action_arg = action b, signTime = sign_time b \<rparr>"

definition clickComplete_until_update :: "env \<Rightarrow> 'db repo \<Rightarrow> body \<Rightarrow> 'db \<Rightarrow> continuation" where
  "clickComplete_until_update e r b db =
     (if \<not> truthy (click_trans_id b) \<or> \<not> truthy (service_id b) \<or>
         \<not> truthy (merchant_trans_id b) \<or> \<not> truthy (merchant_prepare_id b) \<or>
         is_nullish (action b)
      then Reply (clickError (- 8) ''Missing required parameters'')
      else if \<not> num_seq (num e (service_id b)) (num e (click_serviceId e))
      then Reply (clickError (- 8) ''Invalid service_id'')
      else if \<not> num_seq (num e (action b)) CLICK_ACTION_COMPLETE
      then Reply (clickError (- 3) ''Invalid action'')
      else if JStr (buildClickMd5Signature e (complete_sign_args e b)) \<noteq> sign_string b
      then Reply (clickError (- 1) ''Invalid signature'')
      else
        (case getPaymentByMerchantTransId r db (merchant_trans_id b) of
           None \<Rightarrow> Reply (clickError (- 5) ''Payment not found'')
         | Some payment \<Rightarrow>
             if \<not> num_seq (id_num payment) (num e (merchant_prepare_id b))
             then Reply (clickError (- 5) ''Payment not found'')
             else if status payment = PAID
             then Reply (clickError (- 4) ''Payment already processed'')
             else if truthy (error b) \<and> \<not> num_seq (num e (error b)) (Fin 0)
             then UpdateThenReply (pay_id payment)
                    (if lt_zero (num e (error b)) then CANCELED else FAILED)
                    (click_trans_id b)
                    [(''click_trans_id'', click_trans_id b),
                     (''merchant_trans_id'', merchant_trans_id b),
                     (''merchant_confirm_id'', JNum (id_num payment)),
                     (''error'', JNum (num e (error b))),
                     (''error_note'', JStr ''Failed'')]
             else if \<not> num_seq (num e (pay_amount payment)) (num e (amount b))
             then Reply (clickError (- 2) ''Invalid amount'')
             else UpdateThenReply (pay_id payment) PAID (click_trans_id b)
                    (clickSuccess
                      [(''click_trans_id'', click_trans_id b),
                       (''merchant_trans_id'', merchant_trans_id b),
                       (''merchant_confirm_id'', JNum (id_num payment))])))"

fun clickComplete_resume :: "'db repo \<Rightarrow> continuation \<Rightarrow> 'db \<Rightarrow> json_obj \<times> 'db" where
  "clickComplete_resume r (Reply res) db = (res, db)"
| "clickComplete_resume r (UpdateThenReply i s g res) db =
     (res, fst (updatePaymentStatusById r db i s g))"

definition clickComplete :: "env \<Rightarrow> 'db repo \<Rightarrow> body \<Rightarrow> 'db \<Rightarrow> json_obj \<times> 'db" where
  "clickComplete e r b db = clickComplete_resume r (clickComplete_until_update e r b db) db"

section \<open>The gateway client\<close>

text \<open>
  \<^verbatim>\<open>clickApiRequest\<close> of the gateway client (lines 40 to 85 of the service file). The
  network is a parameter: \<open>fetch\<close> maps the request to what the awaited promise does, a
  rejection or a response with \<^verbatim>\<open>res.ok\<close>, \<^verbatim>\<open>res.status\<close> and the payload the function
  decodes from it (\<^verbatim>\<open>null\<close>, a text or a JSON object of primitive values). The path is
  kept as the template it is built from, with the values interpolated into it, and the
  \<^verbatim>\<open>Auth\<close> header value of \<^verbatim>\<open>utils/clickAuth\<close> is a parameter. The day in the path of
  the status request is left out with the timestamps: \<^verbatim>\<open>created_at\<close> is a timestamp that is
  never null, on which \<^verbatim>\<open>toYYYYMMDD\<close> does not throw.
\<close>

datatype gw_payload = PayloadNull | PayloadText string | PayloadJson json_obj

datatype fetch_outcome = Rejected string | Responded bool nat gw_payload

datatype api_path = Payment_status_by_mti string | Payment_reversal jsval

datatype init_value = IString string | IHeaders "(string \<times> string) list" | IUndefined

type_synonym fetch_init = "(string \<times> init_value) list"

record gateway =
  fetch :: "api_path \<Rightarrow> fetch_init \<Rightarrow> fetch_outcome"
  authHeaderValue :: string

datatype exn = RequireIntError | FetchError string | ClickApiError nat gw_payload

text \<open>
  The second argument of \<^verbatim>\<open>fetch(url, { method, headers, body })\<close>. \<open>json\<close> is the
  stringified \<^verbatim>\<open>json\<close> option, \<open>None\<close> when the caller passes none.
\<close>

definition fetch_options :: "string \<Rightarrow> string \<Rightarrow> string option \<Rightarrow> fetch_init" where
  "fetch_options auth method json =
     [(''method'', IString method),
      (''headers'', IHeaders ([(''Accept'', ''application/json''), (''Auth'', auth)] @
          (case json of None \<Rightarrow> [] | Some j \<Rightarrow> [(''Content-Type'', ''application/json'')]))),
      (''body'', (case json of None \<Rightarrow> IUndefined | Some j \<Rightarrow> IString j))]"

definition clickApiRequest :: "gateway \<Rightarrow> string \<Rightarrow> api_path \<Rightarrow> string option \<Rightarrow> exn + gw_payload" where
  "clickApiRequest gw method path json =
     (case fetch gw path (fetch_options (authHeaderValue gw) method json) of
        Rejected msg \<Rightarrow> Inl (FetchError msg)
      | Responded ok st payload \<Rightarrow>
          if \<not> ok then Inl (ClickApiError st payload) else Inr payload)"

text \<open>
  A fetch is bounded in time by the caller only through an abort signal among its options
  (\<^verbatim>\<open>signal: AbortSignal.timeout(ms)\<close>).
\<close>

definition has_timeout :: "fetch_init \<Rightarrow> bool" where
  "has_timeout init = (''signal'' \<in> set (map fst init))"

definition getPaymentStatusByMerchantTransId :: "gateway \<Rightarrow> string \<Rightarrow> exn + gw_payload" where
  "getPaymentStatusByMerchantTransId gw mti =
     clickApiRequest gw ''GET'' (Payment_status_by_mti mti) None"

definition clickService_reversePayment :: "gateway \<Rightarrow> jsval \<Rightarrow> exn + gw_payload" where
  "clickService_reversePayment gw pid =
     clickApiRequest gw ''DELETE'' (Payment_reversal pid) None"

section \<open>Status synchronization and reversal\<close>

text \<open>\<^verbatim>\<open>mapClickPaymentStatusToLocal\<close> (lines 35 to 38).\<close>

definition mapClickPaymentStatusToLocal :: "jsval \<Rightarrow> status" where
  "mapClickPaymentStatusToLocal clickPaymentStatus =
     (if clickPaymentStatus = JNum (Fin 1) then PAID else PENDING)"

text \<open>
  The value of \<^verbatim>\<open>response && response.key\<close> on a decoded payload: a falsy payload
  (\<^verbatim>\<open>null\<close>, the empty text) is the value itself, and a text has no such property.
\<close>

fun payload_prop :: "gw_payload \<Rightarrow> string \<Rightarrow> jsval" where
  "payload_prop PayloadNull k = JNull"
| "payload_prop (PayloadText s) k = (if s = [] then JStr [] else JUndefined)"
| "payload_prop (PayloadJson obj) k = get_prop obj k"

datatype admin_reply =
    NOT_FOUND
  | MISSING_CLICK_PAYMENT_ID
  | Done gw_payload "payment option"

text \<open>
  \<^verbatim>\<open>syncPaymentStatusFromClick\<close> (lines 98 to 118). \<open>idr\<close> is what
  \<^verbatim>\<open>requireInt(req.params.id, 'id')\<close> of \<^verbatim>\<open>utils/validation\<close> gives: the identifier, or
  the exception it throws. An exception leaves the handler at the awaited call that
  raised it. \<open>NOT_FOUND\<close> is the 404 reply, \<open>Done\<close> the 200 reply
  \<^verbatim>\<open>{ click: response, payment: updated }\<close>.
\<close>

definition syncPaymentStatusFromClick ::
  "env \<Rightarrow> 'db repo \<Rightarrow> gateway \<Rightarrow> exn + int \<Rightarrow> 'db \<Rightarrow> (exn + admin_reply) \<times> 'db" where
  "syncPaymentStatusFromClick e r gw idr db =
     (case idr of
        Inl x \<Rightarrow> (Inl x, db)
      | Inr i \<Rightarrow>
          (case getPaymentById r db i of
             None \<Rightarrow> (Inr NOT_FOUND, db)
           | Some payment \<Rightarrow>
               (case getPaymentStatusByMerchantTransId gw (click_merchant_trans_id payment) of
                  Inl x \<Rightarrow> (Inl x, db)
                | Inr response \<Rightarrow>
                    (let clickPaymentId =
                           (if truthy (payload_prop response ''payment_id'')
                            then JNum (num e (payload_prop response ''payment_id''))
                            else JNull);
                         clickPaymentStatus =
                           (if is_number (payload_prop response ''payment_status'')
                            then payload_prop response ''payment_status''
                            else JNull)
                     in if \<not> is_nullish clickPaymentStatus
                        then
                          (let upd = updatePaymentStatusById r db (pay_id payment)
                                       (mapClickPaymentStatusToLocal clickPaymentStatus)
                                       clickPaymentId
                           in (Inr (Done response (snd upd)), fst upd))
                        else (Inr (Done response (Some payment)), db)))))"

text \<open>
  \<^verbatim>\<open>reversePayment\<close> (lines 120 to 134); \<open>MISSING_CLICK_PAYMENT_ID\<close> is the 409 reply. The
  update is called with two arguments.
\<close>

definition reversePayment ::
  "'db repo \<Rightarrow> gateway \<Rightarrow> exn + int \<Rightarrow> 'db \<Rightarrow> (exn + admin_reply) \<times> 'db" where
  "reversePayment r gw idr db =
     (case idr of
        Inl x \<Rightarrow> (Inl x, db)
      | Inr i \<Rightarrow>
          (case getPaymentById r db i of
             None \<Rightarrow> (Inr NOT_FOUND, db)
           | Some payment \<Rightarrow>
               if \<not> truthy (click_payment_id payment)
               then (Inr MISSING_CLICK_PAYMENT_ID, db)
               else
                 (case clickService_reversePayment gw (click_payment_id payment) of
                    Inl x \<Rightarrow> (Inl x, db)
                  | Inr response \<Rightarrow>
                      (let upd = updatePaymentStatusById r db (pay_id payment) CANCELED JUndefined
                       in (Inr (Done response (snd upd)), fst upd)))))"

section \<open>Two deliveries in flight\<close>

text \<open>
  Every callback is handled by its own invocation of the asynchronous handler; invocations
  interleave at the awaited repository calls, which the store executes one at a time. A
  delivery of COMPLETE has arrived, or is suspended at its update, or has replied.
  \<open>advance\<close> runs one delivery up to its next awaited call and reports the status updates
  it issued on the way; \<open>run\<close> follows a schedule that names which of two deliveries moves
  next, and keeps the list of the updates issued.
\<close>

datatype delivery = Arrived body | AwaitingUpdate int status jsval json_obj | Replied json_obj

fun advance ::
  "env \<Rightarrow> 'db repo \<Rightarrow> delivery \<Rightarrow> 'db \<Rightarrow> delivery \<times> 'db \<times> (int \<times> status) list" where
  "advance e r (Arrived b) db =
     (case clickComplete_until_update e r b db of
        Reply res \<Rightarrow> (Replied res, db, [])
      | UpdateThenReply i s g res \<Rightarrow> (AwaitingUpdate i s g res, db, []))"
| "advance e r (AwaitingUpdate i s g res) db =
     (Replied res, fst (updatePaymentStatusById r db i s g), [(i, s)])"
| "advance e r (Replied res) db = (Replied res, db, [])"

datatype turn = First | Second

fun run ::
  "env \<Rightarrow> 'db repo \<Rightarrow> turn list \<Rightarrow> delivery \<times> delivery \<times> 'db \<times> (int \<times> status) list \<Rightarrow>
     delivery \<times> delivery \<times> 'db \<times> (int \<times> status) list" where
  "run e r [] c = c"
| "run e r (First # ts) (d1, d2, db, issued) =
     (case advance e r d1 db of (d1', db', u) \<Rightarrow> run e r ts (d1', d2, db', issued @ u))"
| "run e r (Second # ts) (d1, d2, db, issued) =
     (case advance e r d2 db of (d2', db', u) \<Rightarrow> run e r ts (d1, d2', db', issued @ u))"

text \<open>What a run shows to the outside: the two deliveries and the updates issued.\<close>

fun outcome ::
  "delivery \<times> delivery \<times> 'db \<times> (int \<times> status) list \<Rightarrow>
     delivery \<times> delivery \<times> (int \<times> status) list" where
  "outcome (d1, d2, db, issued) = (d1, d2, issued)"

section \<open>The payment store\<close>

text \<open>
  The repository module \<^verbatim>\<open>repositories/payment.repository.js\<close> is not among the sources.
  This section gives one repository, for the handlers to run on in the examples and to
  show that the two conditions at its end can be met. The store is the list of the rows
  of \<^verbatim>\<open>payments\<close>.
\<close>

type_synonym store = "payment list"

text \<open>
  Modelled from the spec: \<^verbatim>\<open>getPaymentById\<close> of the absent repository module, the spec's
  \<^verbatim>\<open>PaymentStore.getById(id) -> Payment?\<close>. It returns the first row with the identifier.
\<close>

definition store_getPaymentById :: "store \<Rightarrow> int \<Rightarrow> payment option" where
  "store_getPaymentById db i = find (\<lambda>p. pay_id p = i) db"

text \<open>
  Modelled from the spec: \<^verbatim>\<open>getPaymentByMerchantTransId\<close> of the absent repository module,
  the spec's \<^verbatim>\<open>PaymentStore.getByMerchantTransId(id) -> Payment?\<close>. It returns the first
  row whose merchant transaction id, a string, is the value asked for.
\<close>

definition store_getPaymentByMerchantTransId :: "store \<Rightarrow> jsval \<Rightarrow> payment option" where
  "store_getPaymentByMerchantTransId db v = find (\<lambda>p. JStr (click_merchant_trans_id p) = v) db"

text \<open>
  Modelled from the spec: what an update writes into a row. The controller passes the row's
  identifier, the new status and the gateway's payment id, and no status it expects the row
  to have; the spec describes this flow of the source as an unconditional write following
  a separate read. The gateway's payment id is optional and replaces the stored one when
  it is given.
\<close>

definition stored :: "payment \<Rightarrow> status \<Rightarrow> jsval \<Rightarrow> payment" where
  "stored p s g =
     p\<lparr> click_payment_id := (if is_nullish g then click_payment_id p else g), status := s \<rparr>"

text \<open>
  Modelled from the spec: \<^verbatim>\<open>updatePaymentStatusById\<close> of the absent repository module,
  which writes the rows with the identifier and answers with the row as it is afterwards
  (the spec's transition "returns the updated Payment"). It is the write of the source's
  flow, which takes no expected status, and not the conditional update the spec asks the
  flow to be replaced with.
\<close>

definition store_updatePaymentStatusById ::
  "store \<Rightarrow> int \<Rightarrow> status \<Rightarrow> jsval \<Rightarrow> store \<times> payment option" where
  "store_updatePaymentStatusById db i s g =
     (let db' = map (\<lambda>p. if pay_id p = i then stored p s g else p) db
      in (db', store_getPaymentById db' i))"

text \<open>
  Modelled from the spec: the absent repository module, made of the three operations
  above.
\<close>

definition paymentRepo :: "store repo" where
  "paymentRepo =
     \<lparr> getPaymentById = store_getPaymentById,
       getPaymentByMerchantTransId = store_getPaymentByMerchantTransId,
       updatePaymentStatusById = store_updatePaymentStatusById \<rparr>"

text \<open>
  What the theorems about stored effects ask of a repository: a row that a read returns is
  read back, after an update by its identifier, as \<open>stored\<close> describes.
\<close>

definition update_is_stored :: "'db repo \<Rightarrow> bool" where
  "update_is_stored r =
     (\<forall>db m p s g.
        getPaymentByMerchantTransId r db m = Some p \<longrightarrow>
        getPaymentByMerchantTransId r (fst (updatePaymentStatusById r db (pay_id p) s g)) m
          = Some (stored p s g))"

definition update_is_stored_by_id :: "'db repo \<Rightarrow> bool" where
  "update_is_stored_by_id r =
     (\<forall>db i p s g.
        getPaymentById r db i = Some p \<longrightarrow>
        getPaymentById r (fst (updatePaymentStatusById r db (pay_id p) s g)) i
          = Some (stored p s g))"

section \<open>Conditions of the handlers, named\<close>

text \<open>
  The checks a callback passes before the handler reads the payment: presence of the
  fields, the service id, the action. \<open>prepare_signed\<close> and \<open>complete_signed\<close> add the
  signature comparison.
\<close>

definition prepare_prechecks :: "env \<Rightarrow> body \<Rightarrow> bool" where
  "prepare_prechecks e b =
     (truthy (click_trans_id b) \<and> truthy (service_id b) \<and> truthy (merchant_trans_id b) \<and>
      truthy (amount b) \<and> \<not> is_nullish (action b) \<and>
      num_seq (num e (service_id b)) (num e (click_serviceId e)) \<and>
      num_seq (num e (action b)) CLICK_ACTION_PREPARE)"

definition prepare_signed :: "env \<Rightarrow> body \<Rightarrow> bool" where
  "prepare_signed e b =
     (prepare_prechecks e b \<and>
      sign_string b = JStr (buildClickMd5Signature e (prepare_sign_args e b)))"

definition complete_prechecks :: "env \<Rightarrow> body \<Rightarrow> bool" where
  "complete_prechecks e b =
     (truthy (click_trans_id b) \<and> truthy (service_id b) \<and> truthy (merchant_trans_id b) \<and>
      truthy (merchant_prepare_id b) \<and> \<not> is_nullish (action b) \<and>
      num_seq (num e (service_id b)) (num e (click_serviceId e)) \<and>
      num_seq (num e (action b)) CLICK_ACTION_COMPLETE)"

definition complete_signed :: "env \<Rightarrow> body \<Rightarrow> bool" where
  "complete_signed e b =
     (complete_prechecks e b \<and>
      sign_string b = JStr (buildClickMd5Signature e (complete_sign_args e b)))"

text \<open>The callback carries a provider error: the condition of line 287.\<close>

definition provider_error :: "env \<Rightarrow> body \<Rightarrow> bool" where
  "provider_error e b = (truthy (error b) \<and> \<not> num_seq (num e (error b)) (Fin 0))"

text \<open>
  A COMPLETE callback that the handler accepts for the row \<open>p\<close>, once it has read \<open>p\<close>: it
  is signed, its prepare id is the row's identifier, it carries no provider error and its
  amount is the row's.
\<close>

definition completes :: "env \<Rightarrow> body \<Rightarrow> payment \<Rightarrow> bool" where
  "completes e b p =
     (complete_signed e b \<and> num_seq (id_num p) (num e (merchant_prepare_id b)) \<and>
      \<not> provider_error e b \<and>
      num_seq (num e (pay_amount p)) (num e (amount b)))"

text \<open>The reply of a successful COMPLETE for the row \<open>p\<close>.\<close>

definition complete_ok :: "body \<Rightarrow> payment \<Rightarrow> json_obj" where
  "complete_ok b p =
     [(''error'', JNum (Fin 0)), (''error_note'', JStr ''Success''),
      (''click_trans_id'', click_trans_id b),
      (''merchant_trans_id'', merchant_trans_id b),
      (''merchant_confirm_id'', JNum (Fin (of_int (pay_id p))))]"

section \<open>Concrete values for the examples\<close>

text \<open>
  StringToNumber on the decimal literals of the examples: an optional minus sign, digits,
  and an optional fraction; the empty string is 0. Any other string is \<open>NaN\<close> here, which
  ECMAScript's function is not on literals with an exponent, a radix prefix or blanks; the
  examples contain none, and no theorem but the examples depends on this function.
\<close>

fun digits_value :: "nat \<Rightarrow> string \<Rightarrow> nat option" where
  "digits_value acc [] = Some acc"
| "digits_value acc (c # cs) =
     (if 48 \<le> (of_char c :: nat) \<and> (of_char c :: nat) \<le> 57
      then digits_value (10 * acc + (of_char c - 48)) cs
      else None)"

definition unsigned_decimal :: "string \<Rightarrow> rat option" where
  "unsigned_decimal s =
     (let ip = takeWhile (\<lambda>c. c \<noteq> CHR ''.'') s;
          fp = drop (Suc (length ip)) s
      in if ip = [] \<and> fp = [] then None
         else
           (case (digits_value 0 ip, digits_value 0 fp) of
              (Some a, Some b) \<Rightarrow> Some (of_nat a + of_nat b / of_nat (10 ^ length fp))
            | _ \<Rightarrow> None))"

definition decimalToNumber :: "string \<Rightarrow> jsnum" where
  "decimalToNumber s =
     (case s of
        [] \<Rightarrow> Fin 0
      | c # cs \<Rightarrow>
          if c = CHR ''-''
          then (case unsigned_decimal cs of None \<Rightarrow> NaN | Some q \<Rightarrow> Fin (- q))
          else (case unsigned_decimal s of None \<Rightarrow> NaN | Some q \<Rightarrow> Fin q))"

text \<open>
  A stand-in for the digest in the examples: the string fields of the argument object in
  the order the spec gives for the digest's input, not hashed.
\<close>

fun field_text :: "jsval \<Rightarrow> string" where
  "field_text (JStr s) = s"
| "field_text v = []"

definition concatSignature :: "sign_args \<Rightarrow> string" where
  "concatSignature a =
     concat (map field_text
       [clickTransId a, serviceId a, secretKey a, merchantTransId a, merchantPrepareId a,
        amount_arg a, action_arg a, signTime a])"

definition env0 :: env where
  "env0 =
     \<lparr> click_serviceId = JStr ''12345'', click_secretKey = JStr ''s3cret'',
       buildClickMd5Signature = concatSignature, StringToNumber = decimalToNumber \<rparr>"

text \<open>The payment of the spec's example, and the form-encoded callbacks for it.\<close>

definition payment42 :: payment where
  "payment42 =
     \<lparr> pay_id = 42, user_id = 1, pay_amount = JStr ''50000.00'',
       click_merchant_trans_id = ''abc'', click_payment_id = JNull, status = PENDING \<rparr>"

definition prepare_unsigned :: body where
  "prepare_unsigned =
     \<lparr> click_trans_id = JStr ''7'', service_id = JStr ''12345'',
       merchant_trans_id = JStr ''abc'', merchant_prepare_id = JUndefined,
       amount = JStr ''50000'', sign_time = JStr ''2024-05-01 10:00:00'',
       sign_string = JUndefined, error = JUndefined, action = JStr ''0'' \<rparr>"

definition sign_prepare :: "body \<Rightarrow> body" where
  "sign_prepare b = b\<lparr> sign_string := JStr (concatSignature (prepare_sign_args env0 b)) \<rparr>"

definition complete_unsigned :: body where
  "complete_unsigned =
     \<lparr> click_trans_id = JStr ''7'', service_id = JStr ''12345'',
       merchant_trans_id = JStr ''abc'', merchant_prepare_id = JStr ''42'',
       amount = JStr ''50000'', sign_time = JStr ''2024-05-01 10:00:05'',
       sign_string = JUndefined, error = JStr ''0'', action = JStr ''1'' \<rparr>"

definition sign_complete :: "body \<Rightarrow> body" where
  "sign_complete b = b\<lparr> sign_string := JStr (concatSignature (complete_sign_args env0 b)) \<rparr>"

text \<open>
  A gateway that rejects the requests that carry a signal and answers the others, and so
  tells which kind it was sent.
\<close>

definition gateway_probe :: gateway where
  "gateway_probe =
     \<lparr> fetch = (\<lambda>path init.
         if has_timeout init then Rejected ''aborted''
         else Responded True 200 (PayloadText ''no signal'')),
       authHeaderValue = ''1:digest:1714557600'' \<rparr>"

text \<open>A gateway that answers every request with the same outcome.\<close>

definition gateway_answering :: "fetch_outcome \<Rightarrow> gateway" where
  "gateway_answering out = \<lparr> fetch = (\<lambda>path init. out), authHeaderValue = ''1:digest:1714557600'' \<rparr>"

section \<open>Facts about the handlers\<close>

text \<open>PREPARE issues no update.\<close>

lemma clickPrepare_store: "snd (clickPrepare e r b db) = db"
  by (simp add: clickPrepare_def split: option.split)

lemma nullish_not_truthy: "is_nullish v \<Longrightarrow> \<not> truthy v"
  by (auto simp: is_nullish_def)

lemma falsy_values:
  "(\<not> truthy v) =
     (v = JUndefined \<or> v = JNull \<or> v = JBool False \<or> v = JNum NaN \<or> v = JNum (Fin 0) \<or> v = JStr [])"
  by (cases v) auto

text \<open>A callback that passes the first three checks: what is left of each handler.\<close>

lemma clickPrepare_after_prechecks:
  assumes "prepare_prechecks e b"
  shows "clickPrepare e r b db =
     (if JStr (buildClickMd5Signature e (prepare_sign_args e b)) \<noteq> sign_string b
      then (clickError (- 1) ''Invalid signature'', db)
      else
        (case getPaymentByMerchantTransId r db (merchant_trans_id b) of
           None \<Rightarrow> (clickError (- 5) ''Payment not found'', db)
         | Some payment \<Rightarrow>
             if status payment = PAID
             then (clickError (- 4) ''Payment already processed'', db)
             else if \<not> num_seq (num e (pay_amount payment)) (num e (amount b))
             then (clickError (- 2) ''Invalid amount'', db)
             else
               ([(''click_trans_id'', click_trans_id b),
                 (''merchant_trans_id'', merchant_trans_id b),
                 (''merchant_prepare_id'', JNum (id_num payment)),
                 (''error'', JNum (Fin 0)),
                 (''error_note'', JStr ''Success'')], db)))"
  using assms unfolding prepare_prechecks_def clickPrepare_def is_nullish_def
  by (simp split del: if_split)

lemma complete_ok_eq:
  "complete_ok b p =
     clickSuccess
       [(''click_trans_id'', click_trans_id b),
        (''merchant_trans_id'', merchant_trans_id b),
        (''merchant_confirm_id'', JNum (id_num p))]"
  by (simp add: complete_ok_def clickSuccess_def id_num_def)

lemma clickComplete_until_update_after_prechecks:
  assumes "complete_prechecks e b"
  shows "clickComplete_until_update e r b db =
     (if JStr (buildClickMd5Signature e (complete_sign_args e b)) \<noteq> sign_string b
      then Reply (clickError (- 1) ''Invalid signature'')
      else
        (case getPaymentByMerchantTransId r db (merchant_trans_id b) of
           None \<Rightarrow> Reply (clickError (- 5) ''Payment not found'')
         | Some payment \<Rightarrow>
             if \<not> num_seq (id_num payment) (num e (merchant_prepare_id b))
             then Reply (clickError (- 5) ''Payment not found'')
             else if status payment = PAID
             then Reply (clickError (- 4) ''Payment already processed'')
             else if truthy (error b) \<and> \<not> num_seq (num e (error b)) (Fin 0)
             then UpdateThenReply (pay_id payment)
                    (if lt_zero (num e (error b)) then CANCELED else FAILED)
                    (click_trans_id b)
                    [(''click_trans_id'', click_trans_id b),
                     (''merchant_trans_id'', merchant_trans_id b),
                     (''merchant_confirm_id'', JNum (id_num payment)),
                     (''error'', JNum (num e (error b))),
                     (''error_note'', JStr ''Failed'')]
             else if \<not> num_seq (num e (pay_amount payment)) (num e (amount b))
             then Reply (clickError (- 2) ''Invalid amount'')
             else UpdateThenReply (pay_id payment) PAID (click_trans_id b) (complete_ok b payment)))"
  using assms
  unfolding complete_prechecks_def clickComplete_until_update_def is_nullish_def complete_ok_eq
  by (simp split del: if_split)

text \<open>The \<^verbatim>\<open>error\<close> field of the replies.\<close>

lemma get_prop_clickError: "get_prop (clickError c n) ''error'' = JNum (Fin (of_int c))"
  by (simp add: get_prop_def clickError_def)

lemma get_prop_failed:
  "get_prop [(''click_trans_id'', a), (''merchant_trans_id'', m), (''merchant_confirm_id'', i),
     (''error'', x), (''error_note'', n)] ''error'' = x"
  by (simp add: get_prop_def)

lemma get_prop_complete_ok: "get_prop (complete_ok b p) ''error'' = JNum (Fin 0)"
  by (simp add: get_prop_def complete_ok_def)

text \<open>An update leaves the identifier and the amount of a row as they are.\<close>

lemma stored_fields [simp]:
  "pay_id (stored p s g) = pay_id p"
  "pay_amount (stored p s g) = pay_amount p"
  "status (stored p s g) = s"
  "id_num (stored p s g) = id_num p"
  by (simp_all add: stored_def id_num_def)

text \<open>The three ways COMPLETE goes on once it has read a row that matches the callback.\<close>

lemma until_update_accept:
  assumes "completes e b p" "getPaymentByMerchantTransId r db (merchant_trans_id b) = Some p"
    "status p \<noteq> PAID"
  shows "clickComplete_until_update e r b db =
     UpdateThenReply (pay_id p) PAID (click_trans_id b) (complete_ok b p)"
  using assms
  by (simp add: completes_def complete_signed_def provider_error_def
      clickComplete_until_update_after_prechecks)

lemma until_update_paid:
  assumes "complete_signed e b" "getPaymentByMerchantTransId r db (merchant_trans_id b) = Some p"
    "num_seq (id_num p) (num e (merchant_prepare_id b))" "status p = PAID"
  shows "clickComplete_until_update e r b db =
     Reply (clickError (- 4) ''Payment already processed'')"
  using assms
  by (simp add: complete_signed_def clickComplete_until_update_after_prechecks)

lemma until_update_provider_error:
  assumes "complete_signed e b" "getPaymentByMerchantTransId r db (merchant_trans_id b) = Some p"
    "num_seq (id_num p) (num e (merchant_prepare_id b))" "status p \<noteq> PAID"
    "provider_error e b"
  shows "clickComplete_until_update e r b db =
     UpdateThenReply (pay_id p)
       (if lt_zero (num e (error b)) then CANCELED else FAILED) (click_trans_id b)
       [(''click_trans_id'', click_trans_id b),
        (''merchant_trans_id'', merchant_trans_id b),
        (''merchant_confirm_id'', JNum (id_num p)),
        (''error'', JNum (num e (error b))),
        (''error_note'', JStr ''Failed'')]"
  using assms
  by (simp add: complete_signed_def provider_error_def
      clickComplete_until_update_after_prechecks)

lemma update_is_storedD:
  assumes "update_is_stored r" "getPaymentByMerchantTransId r db m = Some p"
  shows "getPaymentByMerchantTransId r (fst (updatePaymentStatusById r db (pay_id p) s g)) m
    = Some (stored p s g)"
  using assms unfolding update_is_stored_def by blast

text \<open>Only the accepting path replies with error 0.\<close>

lemma error_zero_accepted:
  assumes "get_prop (fst (clickComplete e r b db)) ''error'' = JNum (Fin 0)"
  shows "\<exists>p. getPaymentByMerchantTransId r db (merchant_trans_id b) = Some p \<and>
             completes e b p \<and> status p \<noteq> PAID"
proof -
  have pre: "complete_prechecks e b"
    using assms
    by (auto simp: clickComplete_def clickComplete_until_update_def complete_prechecks_def
        get_prop_clickError is_nullish_def split: if_splits)
  show ?thesis
    using assms pre
    by (auto simp: clickComplete_def clickComplete_until_update_after_prechecks
        completes_def complete_signed_def provider_error_def get_prop_clickError
        get_prop_failed num_seq_def
        split: if_splits option.splits)
qed

text \<open>The modelled store reads an update back.\<close>

lemma find_map_keeping:
  assumes "\<And>x. P (f x) = P x"
  shows "find P (map f xs) = map_option f (find P xs)"
  using assms by (induction xs) auto

lemma paymentRepo_update_is_stored: "update_is_stored paymentRepo"
  unfolding update_is_stored_def
proof (intro allI impI)
  fix db m p s g
  assume a: "getPaymentByMerchantTransId paymentRepo db m = Some p"
  let ?f = "\<lambda>q. if pay_id q = pay_id p then stored q s g else q"
  have "find (\<lambda>q. JStr (click_merchant_trans_id q) = m) (map ?f db) =
      map_option ?f (find (\<lambda>q. JStr (click_merchant_trans_id q) = m) db)"
    by (rule find_map_keeping) (simp add: stored_def)
  then show "getPaymentByMerchantTransId paymentRepo
      (fst (updatePaymentStatusById paymentRepo db (pay_id p) s g)) m = Some (stored p s g)"
    using a
    by (simp add: paymentRepo_def store_getPaymentByMerchantTransId_def
        store_updatePaymentStatusById_def Let_def)
qed

lemma paymentRepo_update_is_stored_by_id: "update_is_stored_by_id paymentRepo"
  unfolding update_is_stored_by_id_def
proof (intro allI impI)
  fix db i p s g
  assume a: "getPaymentById paymentRepo db i = Some p"
  let ?f = "\<lambda>q. if pay_id q = pay_id p then stored q s g else q"
  have "find (\<lambda>q. pay_id q = i) (map ?f db) = map_option ?f (find (\<lambda>q. pay_id q = i) db)"
    by (rule find_map_keeping) simp
  then show "getPaymentById paymentRepo
      (fst (updatePaymentStatusById paymentRepo db (pay_id p) s g)) i = Some (stored p s g)"
    using a
    by (simp add: paymentRepo_def store_getPaymentById_def store_updatePaymentStatusById_def
        Let_def)
qed

section \<open>The example callbacks\<close>

text \<open>The signature is not part of what is signed.\<close>

lemma prepare_sign_args_signed [simp]:
  "prepare_sign_args e (b\<lparr>sign_string := x\<rparr>) = prepare_sign_args e b"
  by (simp add: prepare_sign_args_def)

lemma complete_sign_args_signed [simp]:
  "complete_sign_args e (b\<lparr>sign_string := x\<rparr>) = complete_sign_args e b"
  by (simp add: complete_sign_args_def)

lemmas example_defs =
  env0_def payment42_def prepare_unsigned_def complete_unsigned_def sign_prepare_def
  sign_complete_def decimalToNumber_def unsigned_decimal_def num_seq_def
  CLICK_ACTION_PREPARE_def CLICK_ACTION_COMPLETE_def prepare_sign_args_def
  complete_sign_args_def is_nullish_def

lemmas store_defs =
  paymentRepo_def store_getPaymentById_def store_getPaymentByMerchantTransId_def
  store_updatePaymentStatusById_def stored_def is_nullish_def Let_def

lemma example_prepare_prechecks: "prepare_prechecks env0 (sign_prepare prepare_unsigned)"
  by (simp add: prepare_prechecks_def example_defs)

lemma example_prepare_signed: "prepare_signed env0 (sign_prepare prepare_unsigned)"
  using example_prepare_prechecks
  by (simp add: prepare_signed_def) (simp add: sign_prepare_def env0_def)

lemma example_complete_prechecks: "complete_prechecks env0 (sign_complete complete_unsigned)"
  by (simp add: complete_prechecks_def example_defs)

lemma example_complete_signed: "complete_signed env0 (sign_complete complete_unsigned)"
  using example_complete_prechecks
  by (simp add: complete_signed_def) (simp add: sign_complete_def env0_def)

lemma example_completes:
  "completes env0 (sign_complete complete_unsigned) (payment42\<lparr>status := s\<rparr>)"
  using example_complete_signed
  by (simp add: completes_def provider_error_def) (simp add: example_defs id_num_def)

lemma example_read:
  "getPaymentByMerchantTransId paymentRepo [payment42\<lparr>status := s\<rparr>] (JStr ''abc'') =
     Some (payment42\<lparr>status := s\<rparr>)"
  by (simp add: example_defs store_defs)

lemma example_merchant_trans_id [simp]:
  "merchant_trans_id (sign_complete (complete_unsigned\<lparr>error := x\<rparr>)) = JStr ''abc''"
  "merchant_trans_id (sign_complete complete_unsigned) = JStr ''abc''"
  by (simp_all add: example_defs)

lemma example_complete:
  "clickComplete env0 paymentRepo (sign_complete complete_unsigned) [payment42\<lparr>status := s\<rparr>] =
     (if s = PAID
      then (clickError (- 4) ''Payment already processed'', [payment42\<lparr>status := s\<rparr>])
      else (complete_ok (sign_complete complete_unsigned) payment42,
            [payment42\<lparr>click_payment_id := JStr ''7'', status := PAID\<rparr>]))"
proof (cases "s = PAID")
  case True
  have "num_seq (id_num (payment42\<lparr>status := s\<rparr>))
      (num env0 (merchant_prepare_id (sign_complete complete_unsigned)))"
    by (simp add: example_defs id_num_def)
  then show ?thesis
    using True until_update_paid [OF example_complete_signed _ _, of paymentRepo
        "[payment42\<lparr>status := s\<rparr>]" "payment42\<lparr>status := s\<rparr>"] example_read [of s]
    by (simp add: clickComplete_def)
next
  case False
  then show ?thesis
    using until_update_accept [OF example_completes, of paymentRepo
        "[payment42\<lparr>status := s\<rparr>]" s] example_read [of s]
    by (simp add: clickComplete_def complete_ok_def)
       (simp add: example_defs store_defs)
qed

lemma example_completes_pending:
  "completes env0 (sign_complete complete_unsigned) payment42"
  using example_completes [of PENDING] by (simp add: payment42_def)

lemma example_read_pending:
  "getPaymentByMerchantTransId paymentRepo [payment42]
     (merchant_trans_id (sign_complete complete_unsigned)) = Some payment42"
  using example_read [of PENDING] by (simp add: payment42_def)

lemma example_provider_error_until_update:
  "clickComplete_until_update env0 paymentRepo
     (sign_complete (complete_unsigned\<lparr>error := JStr ''-9''\<rparr>)) [payment42] =
   UpdateThenReply 42 CANCELED (JStr ''7'')
     [(''click_trans_id'', JStr ''7''), (''merchant_trans_id'', JStr ''abc''),
      (''merchant_confirm_id'', JNum (Fin 42)), (''error'', JNum (Fin (- 9))),
      (''error_note'', JStr ''Failed'')]"
proof -
  let ?b = "sign_complete (complete_unsigned\<lparr>error := JStr ''-9''\<rparr>)"
  have pre: "complete_prechecks env0 ?b"
    by (simp add: complete_prechecks_def example_defs)
  have 1: "complete_signed env0 ?b"
    using pre by (simp add: complete_signed_def) (simp add: sign_complete_def env0_def)
  have 2: "getPaymentByMerchantTransId paymentRepo [payment42] (merchant_trans_id ?b) =
      Some payment42"
    using example_read [of PENDING] by (simp add: payment42_def)
  have 3: "num_seq (id_num payment42) (num env0 (merchant_prepare_id ?b))"
    by (simp add: example_defs id_num_def)
  have 4: "status payment42 \<noteq> PAID"
    by (simp add: payment42_def)
  have 5: "provider_error env0 ?b"
    by (simp add: provider_error_def example_defs)
  show ?thesis
    using until_update_provider_error [OF 1 2 3 4 5]
    by (simp add: id_num_def) (simp add: example_defs)
qed

section \<open>PREPARE: presence of the fields\<close>

text \<open>
  Claim C4, as amended. A PREPARE callback in which one of \<^verbatim>\<open>click_trans_id\<close>,
  \<^verbatim>\<open>service_id\<close>, \<^verbatim>\<open>merchant_trans_id\<close>, \<^verbatim>\<open>amount\<close>, \<^verbatim>\<open>action\<close> is null or absent
  is answered with error -8, "Missing required parameters", and the store is left as it
  is. This is the first check: the reply is the same whatever the configured service id,
  the digest function, the other fields and the store are. \<^verbatim>\<open>sign_time\<close> and
  \<^verbatim>\<open>sign_string\<close> are not among the fields the check looks at.
\<close>

theorem clickPrepare_null_field_missing_parameters:
  assumes "is_nullish (click_trans_id b) \<or> is_nullish (service_id b) \<or>
           is_nullish (merchant_trans_id b) \<or> is_nullish (amount b) \<or> is_nullish (action b)"
  shows "clickPrepare e r b db = (clickError (- 8) ''Missing required parameters'', db)"
  using assms nullish_not_truthy unfolding clickPrepare_def by auto

text \<open>
  An instance of C4 as amended: the example callback with a null amount.
\<close>

theorem clickPrepare_null_field_missing_parameters_witness:
  "clickPrepare env0 paymentRepo (prepare_unsigned\<lparr>amount := JNull\<rparr>) [payment42] =
     (clickError (- 8) ''Missing required parameters'', [payment42])"
  using clickPrepare_null_field_missing_parameters
    [of "prepare_unsigned\<lparr>amount := JNull\<rparr>" env0 paymentRepo "[payment42]"]
  by (simp add: is_nullish_def)

text \<open>
  Claim C4 as stated fails for the two signature fields. The example callback with no
  \<^verbatim>\<open>sign_string\<close>, every other field in place, passes the presence check and is answered
  with error -1 by the signature comparison, not with -8. The example callback with no
  \<^verbatim>\<open>sign_time\<close>, signed as it is, is answered with error 0.
\<close>

theorem clickPrepare_absent_sign_string_not_missing:
  "sign_string prepare_unsigned = JUndefined \<and>
   fst (clickPrepare env0 paymentRepo prepare_unsigned [payment42]) =
     clickError (- 1) ''Invalid signature'' \<and>
   sign_time (sign_prepare (prepare_unsigned\<lparr>sign_time := JUndefined\<rparr>)) = JUndefined \<and>
   get_prop (fst (clickPrepare env0 paymentRepo
       (sign_prepare (prepare_unsigned\<lparr>sign_time := JUndefined\<rparr>)) [payment42])) ''error'' =
     JNum (Fin 0)"
proof -
  have "prepare_prechecks env0 prepare_unsigned"
    by (simp add: prepare_prechecks_def example_defs)
  then have 1: "fst (clickPrepare env0 paymentRepo prepare_unsigned [payment42]) =
      clickError (- 1) ''Invalid signature''"
    by (simp add: clickPrepare_after_prechecks) (simp add: prepare_unsigned_def)
  have "prepare_prechecks env0 (sign_prepare (prepare_unsigned\<lparr>sign_time := JUndefined\<rparr>))"
    by (simp add: prepare_prechecks_def example_defs)
  then have 2: "get_prop (fst (clickPrepare env0 paymentRepo
       (sign_prepare (prepare_unsigned\<lparr>sign_time := JUndefined\<rparr>)) [payment42])) ''error'' =
     JNum (Fin 0)"
    by (simp add: clickPrepare_after_prechecks)
       (simp add: example_defs store_defs get_prop_def)
  show ?thesis
    using 1 2 by (simp add: prepare_unsigned_def sign_prepare_def)
qed

text \<open>
  Claim C10, as amended. A PREPARE callback whose \<^verbatim>\<open>amount\<close> is falsy is answered with
  error -8, "Missing required parameters", whatever else it carries, so it reaches neither
  the amount comparison nor the success reply; the presence test is \<^verbatim>\<open>!amount\<close>. The falsy
  values are exactly \<^verbatim>\<open>undefined\<close>, \<^verbatim>\<open>null\<close>, \<^verbatim>\<open>false\<close>, \<^verbatim>\<open>NaN\<close>, the number 0 and the
  empty string. A non-empty string is truthy, the string "0" included.
\<close>

theorem clickPrepare_falsy_amount_missing_parameters:
  "(\<not> truthy (amount b) \<longrightarrow>
      clickPrepare e r b db = (clickError (- 8) ''Missing required parameters'', db)) \<and>
   ((\<not> truthy v) =
      (v = JUndefined \<or> v = JNull \<or> v = JBool False \<or> v = JNum NaN \<or> v = JNum (Fin 0) \<or>
       v = JStr []))"
  using falsy_values [of v] by (simp add: clickPrepare_def)

text \<open>
  An instance of C10 as amended: the signed example callback with the number 0 as amount.
\<close>

theorem clickPrepare_falsy_amount_missing_parameters_witness:
  "clickPrepare env0 paymentRepo (sign_prepare (prepare_unsigned\<lparr>amount := JNum (Fin 0)\<rparr>))
      [payment42] = (clickError (- 8) ''Missing required parameters'', [payment42]) \<and>
   \<not> truthy (JStr [])"
  using clickPrepare_falsy_amount_missing_parameters
    [of "sign_prepare (prepare_unsigned\<lparr>amount := JNum (Fin 0)\<rparr>)" env0 paymentRepo
        "[payment42]" "JStr []"]
  by (simp add: sign_prepare_def)

text \<open>
  Claim C10 as stated fails for 0 as a string: the string "0", which a form-encoded body
  carries for a zero amount, is truthy and coerces to the number 0. The signed example
  callback with this amount passes the presence check and reaches the amount comparison,
  which answers -2 against the payment of 50000.
\<close>

theorem clickPrepare_string_zero_amount_reaches_amount_check:
  "truthy (JStr ''0'') \<and> num env0 (JStr ''0'') = Fin 0 \<and>
   fst (clickPrepare env0 paymentRepo (sign_prepare (prepare_unsigned\<lparr>amount := JStr ''0''\<rparr>))
      [payment42]) = clickError (- 2) ''Invalid amount''"
proof -
  have "prepare_prechecks env0 (sign_prepare (prepare_unsigned\<lparr>amount := JStr ''0''\<rparr>))"
    by (simp add: prepare_prechecks_def example_defs)
  then show ?thesis
    by (simp add: clickPrepare_after_prechecks)
       (simp add: example_defs store_defs)
qed

section \<open>Signature mismatch\<close>

text \<open>
  Claim C5, as amended. A PREPARE or COMPLETE callback that passes the presence, service-id
  and action checks and whose \<^verbatim>\<open>sign_string\<close> is not the expected digest is answered with
  error -1, "Invalid signature", and the store is left as it is, whatever the store holds:
  whether the payment exists, its status and its amount play no part.
\<close>

theorem tampered_signature_after_prechecks:
  "(prepare_prechecks e b \<and>
    sign_string b \<noteq> JStr (buildClickMd5Signature e (prepare_sign_args e b)) \<longrightarrow>
      clickPrepare e r b db = (clickError (- 1) ''Invalid signature'', db)) \<and>
   (complete_prechecks e c \<and>
    sign_string c \<noteq> JStr (buildClickMd5Signature e (complete_sign_args e c)) \<longrightarrow>
      clickComplete e r c db = (clickError (- 1) ''Invalid signature'', db))"
proof (intro conjI impI)
  assume "prepare_prechecks e b \<and>
    sign_string b \<noteq> JStr (buildClickMd5Signature e (prepare_sign_args e b))"
  then show "clickPrepare e r b db = (clickError (- 1) ''Invalid signature'', db)"
    by (auto simp: clickPrepare_after_prechecks)
next
  assume "complete_prechecks e c \<and>
    sign_string c \<noteq> JStr (buildClickMd5Signature e (complete_sign_args e c))"
  then show "clickComplete e r c db = (clickError (- 1) ''Invalid signature'', db)"
    by (auto simp: clickComplete_def clickComplete_until_update_after_prechecks)
qed

text \<open>
  Instances of C5 as amended: the example callbacks with a wrong signature, PREPARE on an
  empty store and COMPLETE on the store with the payment.
\<close>

theorem tampered_signature_after_prechecks_witness:
  "clickPrepare env0 paymentRepo (prepare_unsigned\<lparr>sign_string := JStr ''0f0e0d''\<rparr>) [] =
     (clickError (- 1) ''Invalid signature'', []) \<and>
   clickComplete env0 paymentRepo (complete_unsigned\<lparr>sign_string := JStr ''0f0e0d''\<rparr>)
     [payment42] = (clickError (- 1) ''Invalid signature'', [payment42])"
proof -
  have "prepare_prechecks env0 (prepare_unsigned\<lparr>sign_string := JStr ''0f0e0d''\<rparr>)"
    by (simp add: prepare_prechecks_def example_defs)
  moreover have "complete_prechecks env0 (complete_unsigned\<lparr>sign_string := JStr ''0f0e0d''\<rparr>)"
    by (simp add: complete_prechecks_def example_defs)
  moreover have "''0f0e0d'' \<noteq> concatSignature (prepare_sign_args env0 prepare_unsigned)"
    by (simp add: concatSignature_def example_defs)
  moreover have "''0f0e0d'' \<noteq> concatSignature (complete_sign_args env0 complete_unsigned)"
    by (simp add: concatSignature_def example_defs)
  ultimately show ?thesis
    using tampered_signature_after_prechecks
      [of env0 "prepare_unsigned\<lparr>sign_string := JStr ''0f0e0d''\<rparr>" paymentRepo "[]"
          "complete_unsigned\<lparr>sign_string := JStr ''0f0e0d''\<rparr>"]
      tampered_signature_after_prechecks
      [of env0 "prepare_unsigned\<lparr>sign_string := JStr ''0f0e0d''\<rparr>" paymentRepo "[payment42]"
          "complete_unsigned\<lparr>sign_string := JStr ''0f0e0d''\<rparr>"]
    by (simp add: env0_def)
qed

text \<open>
  Claim C5 as stated fails: the checks before the signature comparison win. The example
  PREPARE callback with a wrong signature and a service id that is not the configured one
  is answered with error -8, "Invalid service_id".
\<close>

theorem tampered_signature_wrong_service_id:
  "sign_string (prepare_unsigned\<lparr>service_id := JStr ''999'', sign_string := JStr ''0f0e0d''\<rparr>) \<noteq>
     JStr (buildClickMd5Signature env0 (prepare_sign_args env0
       (prepare_unsigned\<lparr>service_id := JStr ''999'', sign_string := JStr ''0f0e0d''\<rparr>))) \<and>
   fst (clickPrepare env0 paymentRepo
         (prepare_unsigned\<lparr>service_id := JStr ''999'', sign_string := JStr ''0f0e0d''\<rparr>)
         [payment42]) = clickError (- 8) ''Invalid service_id''"
  by (simp add: clickPrepare_def concatSignature_def example_defs is_nullish_def)

section \<open>PREPARE: success and frame\<close>

text \<open>
  Claim C8, as amended. No PREPARE callback changes the store. A PREPARE callback whose
  \<^verbatim>\<open>click_trans_id\<close>, \<^verbatim>\<open>service_id\<close>, \<^verbatim>\<open>merchant_trans_id\<close> and \<^verbatim>\<open>amount\<close> are truthy and
  whose \<^verbatim>\<open>action\<close> is neither null nor absent, with the configured service id, action 0
  and a correct signature (\<open>prepare_signed\<close>), for an existing payment in status PENDING
  with a numerically equal amount, is answered with error 0, echoing \<^verbatim>\<open>click_trans_id\<close> and
  \<^verbatim>\<open>merchant_trans_id\<close>, and \<^verbatim>\<open>merchant_prepare_id\<close> is the payment's identifier.
\<close>

theorem clickPrepare_success_and_frame:
  "snd (clickPrepare e r b db) = db \<and>
   (prepare_signed e b \<and>
    getPaymentByMerchantTransId r db (merchant_trans_id b) = Some p \<and>
    status p = PENDING \<and>
    num_seq (num e (pay_amount p)) (num e (amount b)) \<longrightarrow>
      fst (clickPrepare e r b db) =
        [(''click_trans_id'', click_trans_id b),
         (''merchant_trans_id'', merchant_trans_id b),
         (''merchant_prepare_id'', JNum (Fin (of_int (pay_id p)))),
         (''error'', JNum (Fin 0)),
         (''error_note'', JStr ''Success'')])"
  by (auto simp: clickPrepare_store prepare_signed_def clickPrepare_after_prechecks id_num_def)

text \<open>
  An instance of C8 as amended: the signed example callback for the payment 42.
\<close>

theorem clickPrepare_success_and_frame_witness:
  "snd (clickPrepare env0 paymentRepo (sign_prepare prepare_unsigned) [payment42]) = [payment42] \<and>
   fst (clickPrepare env0 paymentRepo (sign_prepare prepare_unsigned) [payment42]) =
     [(''click_trans_id'', JStr ''7''), (''merchant_trans_id'', JStr ''abc''),
      (''merchant_prepare_id'', JNum (Fin 42)), (''error'', JNum (Fin 0)),
      (''error_note'', JStr ''Success'')]"
proof -
  have "getPaymentByMerchantTransId paymentRepo [payment42]
          (merchant_trans_id (sign_prepare prepare_unsigned)) = Some payment42"
    by (simp add: example_defs store_defs)
  moreover have "status payment42 = PENDING"
    by (simp add: payment42_def)
  moreover have "num_seq (num env0 (pay_amount payment42))
      (num env0 (amount (sign_prepare prepare_unsigned)))"
    by (simp add: example_defs)
  ultimately show ?thesis
    using example_prepare_signed
      clickPrepare_success_and_frame
        [of env0 paymentRepo "sign_prepare prepare_unsigned" "[payment42]" payment42]
    by (simp add: sign_prepare_def prepare_unsigned_def payment42_def)
qed

text \<open>
  Claim C8 as stated fails where a field is present and falsy: the signed example callback
  with the number 0 as amount, for a PENDING payment of amount 0.00. The amount is not
  null, it is the amount that was signed, and it equals the payment's numerically; the
  reply is error -8.
\<close>

theorem clickPrepare_zero_amount_present_rejected:
  "\<not> is_nullish (amount (sign_prepare (prepare_unsigned\<lparr>amount := JNum (Fin 0)\<rparr>))) \<and>
   prepare_sign_args env0 (prepare_unsigned\<lparr>amount := JNum (Fin 0)\<rparr>) =
     prepare_sign_args env0 (sign_prepare (prepare_unsigned\<lparr>amount := JNum (Fin 0)\<rparr>)) \<and>
   num_seq (num env0 (JStr ''0.00''))
     (num env0 (amount (sign_prepare (prepare_unsigned\<lparr>amount := JNum (Fin 0)\<rparr>)))) \<and>
   fst (clickPrepare env0 paymentRepo (sign_prepare (prepare_unsigned\<lparr>amount := JNum (Fin 0)\<rparr>))
      [payment42\<lparr>pay_amount := JStr ''0.00''\<rparr>]) =
     clickError (- 8) ''Missing required parameters''"
  by (simp add: clickPrepare_def example_defs is_nullish_def)

section \<open>COMPLETE: provider error and replay\<close>

text \<open>
  Claim C6. A COMPLETE callback that passes the presence, service-id, action and signature
  checks (\<open>complete_signed\<close>), for which a payment exists whose identifier is the prepare
  id and which is not PAID, and which carries a provider error (a truthy \<^verbatim>\<open>error\<close> whose
  number is not 0): the reply echoes \<^verbatim>\<open>click_trans_id\<close>, \<^verbatim>\<open>merchant_trans_id\<close> and the
  provider's error code, with \<^verbatim>\<open>merchant_confirm_id\<close> the payment's identifier, and the
  payment is read back with \<^verbatim>\<open>click_trans_id\<close> as its gateway payment id and with status
  CANCELED when the code is negative, FAILED otherwise. Neither the callback's amount nor
  the payment's is constrained: no amount check stands on this path. The repository is any
  one that stores the update it is given.
\<close>

theorem clickComplete_provider_error:
  assumes "complete_signed e b"
    and "getPaymentByMerchantTransId r db (merchant_trans_id b) = Some p"
    and "num_seq (id_num p) (num e (merchant_prepare_id b))"
    and "status p \<noteq> PAID"
    and "provider_error e b"
    and "update_is_stored r"
  shows "fst (clickComplete e r b db) =
           [(''click_trans_id'', click_trans_id b),
            (''merchant_trans_id'', merchant_trans_id b),
            (''merchant_confirm_id'', JNum (Fin (of_int (pay_id p)))),
            (''error'', JNum (num e (error b))),
            (''error_note'', JStr ''Failed'')] \<and>
         getPaymentByMerchantTransId r (snd (clickComplete e r b db)) (merchant_trans_id b) =
           Some (p\<lparr> click_payment_id := click_trans_id b,
                    status := (if lt_zero (num e (error b)) then CANCELED else FAILED) \<rparr>)"
proof -
  have "truthy (click_trans_id b)"
    using assms(1) by (simp add: complete_signed_def complete_prechecks_def)
  then have g: "\<not> is_nullish (click_trans_id b)"
    using nullish_not_truthy by blast
  show ?thesis
    using until_update_provider_error [OF assms(1-5)] update_is_storedD [OF assms(6) assms(2)] g
    by (simp add: clickComplete_def id_num_def stored_def)
qed

text \<open>
  An instance of C6: the signed example callback with \<^verbatim>\<open>error=-9\<close> cancels the payment 42.
\<close>

theorem clickComplete_provider_error_witness:
  "fst (clickComplete env0 paymentRepo (sign_complete (complete_unsigned\<lparr>error := JStr ''-9''\<rparr>))
         [payment42]) =
     [(''click_trans_id'', JStr ''7''), (''merchant_trans_id'', JStr ''abc''),
      (''merchant_confirm_id'', JNum (Fin 42)), (''error'', JNum (Fin (- 9))),
      (''error_note'', JStr ''Failed'')] \<and>
   getPaymentByMerchantTransId paymentRepo
     (snd (clickComplete env0 paymentRepo
            (sign_complete (complete_unsigned\<lparr>error := JStr ''-9''\<rparr>)) [payment42]))
     (JStr ''abc'') =
     Some (payment42\<lparr>click_payment_id := JStr ''7'', status := CANCELED\<rparr>)"
proof -
  let ?b = "sign_complete (complete_unsigned\<lparr>error := JStr ''-9''\<rparr>)"
  have pre: "complete_prechecks env0 ?b"
    by (simp add: complete_prechecks_def example_defs)
  have 1: "complete_signed env0 ?b"
    using pre by (simp add: complete_signed_def) (simp add: sign_complete_def env0_def)
  have 2: "getPaymentByMerchantTransId paymentRepo [payment42] (merchant_trans_id ?b) =
      Some payment42"
    using example_read [of PENDING] by (simp add: payment42_def)
  have 3: "num_seq (id_num payment42) (num env0 (merchant_prepare_id ?b))"
    by (simp add: example_defs id_num_def)
  have 4: "status payment42 \<noteq> PAID"
    by (simp add: payment42_def)
  have 5: "provider_error env0 ?b"
    by (simp add: provider_error_def example_defs)
  have 6: "num env0 (error ?b) = Fin (- 9)"
    by (simp add: example_defs)
  show ?thesis
    using clickComplete_provider_error [OF 1 2 3 4 5 paymentRepo_update_is_stored] 6
    by (simp add: sign_complete_def complete_unsigned_def)
       (simp add: payment42_def)
qed

text \<open>
  Claim C7. When a delivery of a COMPLETE callback has replied with error 0, the payment it
  names is PAID afterwards, and a second delivery of the same callback is answered with
  error -4, "Payment already processed", and leaves the store as the first delivery left
  it, so the status and the gateway payment id are those the first delivery wrote. The
  repository is any one that stores the update it is given.
\<close>

theorem clickComplete_replay:
  assumes "update_is_stored r"
    and "get_prop (fst (clickComplete e r b db)) ''error'' = JNum (Fin 0)"
  shows "map_option status
           (getPaymentByMerchantTransId r (snd (clickComplete e r b db)) (merchant_trans_id b))
           = Some PAID \<and>
         clickComplete e r b (snd (clickComplete e r b db)) =
           (clickError (- 4) ''Payment already processed'', snd (clickComplete e r b db))"
proof -
  obtain p where p: "getPaymentByMerchantTransId r db (merchant_trans_id b) = Some p"
      "completes e b p" "status p \<noteq> PAID"
    using error_zero_accepted [OF assms(2)] by blast
  let ?db1 = "fst (updatePaymentStatusById r db (pay_id p) PAID (click_trans_id b))"
  have first: "snd (clickComplete e r b db) = ?db1"
    using until_update_accept [OF p(2) p(1) p(3)] by (simp add: clickComplete_def)
  have read: "getPaymentByMerchantTransId r ?db1 (merchant_trans_id b)
      = Some (stored p PAID (click_trans_id b))"
    using update_is_storedD [OF assms(1) p(1)] .
  have "clickComplete_until_update e r b ?db1 =
      Reply (clickError (- 4) ''Payment already processed'')"
    using p(2) by (intro until_update_paid [OF _ read]) (simp_all add: completes_def)
  then show ?thesis
    using first read by (simp add: clickComplete_def)
qed

text \<open>
  An instance of C7: the signed example callback, delivered to the store its first delivery
  produced from the PENDING payment 42.
\<close>

theorem clickComplete_replay_witness:
  "map_option status
     (getPaymentByMerchantTransId paymentRepo
        [payment42\<lparr>click_payment_id := JStr ''7'', status := PAID\<rparr>] (JStr ''abc'')) = Some PAID \<and>
   clickComplete env0 paymentRepo (sign_complete complete_unsigned)
     [payment42\<lparr>click_payment_id := JStr ''7'', status := PAID\<rparr>] =
     (clickError (- 4) ''Payment already processed'',
      [payment42\<lparr>click_payment_id := JStr ''7'', status := PAID\<rparr>])"
proof -
  have first: "clickComplete env0 paymentRepo (sign_complete complete_unsigned) [payment42] =
      (complete_ok (sign_complete complete_unsigned) payment42,
       [payment42\<lparr>click_payment_id := JStr ''7'', status := PAID\<rparr>])"
    using example_complete [of PENDING] by (simp add: payment42_def)
  have "get_prop (fst (clickComplete env0 paymentRepo (sign_complete complete_unsigned)
      [payment42])) ''error'' = JNum (Fin 0)"
    by (simp add: first get_prop_complete_ok)
  from clickComplete_replay [OF paymentRepo_update_is_stored this]
  show ?thesis
    by (simp add: first)
qed

section \<open>Status synchronization\<close>

text \<open>
  Once the payment is read and the gateway has answered, the handler updates the row
  exactly when the payload carries a number as \<^verbatim>\<open>payment_status\<close>.
\<close>

lemma sync_after_read:
  assumes "getPaymentById r db i = Some p"
    and "getPaymentStatusByMerchantTransId gw (click_merchant_trans_id p) = Inr response"
  shows "syncPaymentStatusFromClick e r gw (Inr i) db =
     (if is_number (payload_prop response ''payment_status'')
      then
        (let upd = updatePaymentStatusById r db (pay_id p)
                     (mapClickPaymentStatusToLocal (payload_prop response ''payment_status''))
                     (if truthy (payload_prop response ''payment_id'')
                      then JNum (num e (payload_prop response ''payment_id'')) else JNull)
         in (Inr (Done response (snd upd)), fst upd))
      else (Inr (Done response (Some p)), db))"
proof (cases "payload_prop response ''payment_status''")
  case (JNum n)
  then show ?thesis
    using assms by (simp add: syncPaymentStatusFromClick_def is_nullish_def Let_def)
qed (use assms in \<open>simp_all add: syncPaymentStatusFromClick_def is_nullish_def Let_def\<close>)

lemma update_is_stored_by_idD:
  assumes "update_is_stored_by_id r" "getPaymentById r db i = Some p"
  shows "getPaymentById r (fst (updatePaymentStatusById r db (pay_id p) s g)) i
    = Some (stored p s g)"
  using assms unfolding update_is_stored_by_id_def by blast

lemma gateway_answering_ok:
  "getPaymentStatusByMerchantTransId (gateway_answering (Responded True st payload)) m =
     Inr payload"
  "clickService_reversePayment (gateway_answering (Responded True st payload)) g = Inr payload"
  by (simp_all add: getPaymentStatusByMerchantTransId_def clickService_reversePayment_def
      clickApiRequest_def gateway_answering_def)

lemma example_read_by_id:
  "getPaymentById paymentRepo [payment42\<lparr>status := s\<rparr>] 42 = Some (payment42\<lparr>status := s\<rparr>)"
  "getPaymentById paymentRepo [payment42\<lparr>click_payment_id := g, status := s\<rparr>] 42 =
     Some (payment42\<lparr>click_payment_id := g, status := s\<rparr>)"
  by (simp_all add: example_defs store_defs)

lemma example_sync:
  "syncPaymentStatusFromClick env0 paymentRepo
     (gateway_answering (Responded True 200
        (PayloadJson [(''payment_id'', JNum (Fin 7)), (''payment_status'', JNum n)])))
     (Inr 42) [payment42\<lparr>click_payment_id := g, status := s\<rparr>] =
   (Inr (Done (PayloadJson [(''payment_id'', JNum (Fin 7)), (''payment_status'', JNum n)])
          (Some (payment42\<lparr>click_payment_id := JNum (Fin 7),
                            status := (if n = Fin 1 then PAID else PENDING)\<rparr>))),
    [payment42\<lparr>click_payment_id := JNum (Fin 7),
               status := (if n = Fin 1 then PAID else PENDING)\<rparr>])"
  using sync_after_read [OF example_read_by_id(2) [where g = g and s = s]
      gateway_answering_ok(1)
        [of 200 "PayloadJson [(''payment_id'', JNum (Fin 7)), (''payment_status'', JNum n)]"],
      where e = env0]
  by (simp add: get_prop_def mapClickPaymentStatusToLocal_def Let_def)
     (simp add: example_defs store_defs)

text \<open>
  Claim C3, as amended. Status synchronization applies no guard on the payment's current
  status. For a payment in any status, when the gateway's answer carries a number as
  \<^verbatim>\<open>payment_status\<close>, the payment's status afterwards is PAID if that number is 1 and
  PENDING otherwise; the status is left as it is only when the answer carries no numeric
  \<^verbatim>\<open>payment_status\<close>. The repository is any one that stores the update it is given.
\<close>

theorem sync_writes_gateway_status:
  assumes "update_is_stored_by_id r"
    and "getPaymentById r db i = Some p"
    and "getPaymentStatusByMerchantTransId gw (click_merchant_trans_id p) = Inr response"
  shows "(payload_prop response ''payment_status'' = JNum n \<longrightarrow>
            map_option status
              (getPaymentById r (snd (syncPaymentStatusFromClick e r gw (Inr i) db)) i) =
              Some (if n = Fin 1 then PAID else PENDING)) \<and>
         (\<not> is_number (payload_prop response ''payment_status'') \<longrightarrow>
            snd (syncPaymentStatusFromClick e r gw (Inr i) db) = db)"
  using update_is_stored_by_idD [OF assms(1,2)]
  by (simp add: sync_after_read [OF assms(2,3)] Let_def mapClickPaymentStatusToLocal_def)

text \<open>
  Instances of C3 as amended: for the CANCELED payment 42, a gateway reporting status 1
  makes it PAID, and a gateway answering with a text leaves the store as it is.
\<close>

theorem sync_writes_gateway_status_witness:
  "map_option status
     (getPaymentById paymentRepo
        (snd (syncPaymentStatusFromClick env0 paymentRepo
               (gateway_answering (Responded True 200
                  (PayloadJson [(''payment_id'', JNum (Fin 7)), (''payment_status'', JNum (Fin 1))])))
               (Inr 42) [payment42\<lparr>status := CANCELED\<rparr>])) 42) = Some PAID \<and>
   snd (syncPaymentStatusFromClick env0 paymentRepo
          (gateway_answering (Responded True 200 (PayloadText ''ok'')))
          (Inr 42) [payment42\<lparr>status := CANCELED\<rparr>]) = [payment42\<lparr>status := CANCELED\<rparr>]"
  using
    sync_writes_gateway_status [OF paymentRepo_update_is_stored_by_id
      example_read_by_id(1) [of CANCELED]
      gateway_answering_ok(1)
        [of 200 "PayloadJson [(''payment_id'', JNum (Fin 7)), (''payment_status'', JNum (Fin 1))]"],
      where e = env0 and n = "Fin 1"]
    sync_writes_gateway_status [OF paymentRepo_update_is_stored_by_id
      example_read_by_id(1) [of CANCELED]
      gateway_answering_ok(1) [of 200 "PayloadText ''ok''"],
      where e = env0 and n = "Fin 1"]
  by (simp add: get_prop_def)

text \<open>
  Claim C3 as stated fails: the payment 42 is stored as PAID, the gateway reports
  \<^verbatim>\<open>payment_status\<close> 2, and synchronization leaves it PENDING.
\<close>

theorem sync_overwrites_paid:
  "getPaymentById paymentRepo [payment42\<lparr>click_payment_id := JStr ''7'', status := PAID\<rparr>] 42 =
     Some (payment42\<lparr>click_payment_id := JStr ''7'', status := PAID\<rparr>) \<and>
   snd (syncPaymentStatusFromClick env0 paymentRepo
          (gateway_answering (Responded True 200
             (PayloadJson [(''payment_id'', JNum (Fin 7)), (''payment_status'', JNum (Fin 2))])))
          (Inr 42) [payment42\<lparr>click_payment_id := JStr ''7'', status := PAID\<rparr>]) =
     [payment42\<lparr>click_payment_id := JNum (Fin 7), status := PENDING\<rparr>]"
  by (simp add: example_sync example_read_by_id)

section \<open>Terminal statuses\<close>

text \<open>
  Claim C2, as amended. PREPARE changes no payment, whatever its status. A delivery of a
  COMPLETE callback whose own read of the payment returns it in status PAID replies in
  that same step, issues no update and leaves the store as it is. The guard is on what the
  delivery has read, and only on PAID.
\<close>

theorem complete_reading_paid_issues_no_update:
  "snd (clickPrepare e r b db) = db \<and>
   (getPaymentByMerchantTransId r db (merchant_trans_id c) = Some p \<and> status p = PAID \<longrightarrow>
      advance e r (Arrived c) db = (Replied (fst (clickComplete e r c db)), db, []) \<and>
      snd (clickComplete e r c db) = db)"
  by (auto simp: clickPrepare_store clickComplete_def clickComplete_until_update_def)

text \<open>
  An instance of C2 as amended: the signed example callbacks on the store with the payment
  42 in status PAID; the COMPLETE delivery is answered with error -4 in its first step.
\<close>

theorem complete_reading_paid_issues_no_update_witness:
  "snd (clickPrepare env0 paymentRepo (sign_prepare prepare_unsigned) [payment42\<lparr>status := PAID\<rparr>])
     = [payment42\<lparr>status := PAID\<rparr>] \<and>
   advance env0 paymentRepo (Arrived (sign_complete complete_unsigned))
     [payment42\<lparr>status := PAID\<rparr>] =
     (Replied (clickError (- 4) ''Payment already processed''),
      [payment42\<lparr>status := PAID\<rparr>], []) \<and>
   snd (clickComplete env0 paymentRepo (sign_complete complete_unsigned)
     [payment42\<lparr>status := PAID\<rparr>]) = [payment42\<lparr>status := PAID\<rparr>]"
  using complete_reading_paid_issues_no_update
    [of env0 paymentRepo "sign_prepare prepare_unsigned" "[payment42\<lparr>status := PAID\<rparr>]"
        "sign_complete complete_unsigned" "payment42\<lparr>status := PAID\<rparr>"]
    example_read [of PAID] example_complete [of PAID]
  by simp

text \<open>
  Claim C2 as stated fails for CANCELED and FAILED under COMPLETE, for PAID under status
  synchronization, and for PAID under a COMPLETE delivery that read the payment earlier.
  For the CANCELED payment 42 the signed example COMPLETE callback passes every check and
  issues the PAID update, which turns the payment into a PAID one, and the FAILED payment
  likewise; synchronization with a gateway that reports \<^verbatim>\<open>payment_status\<close> 0 turns the
  PAID payment 42 into a PENDING one. With two deliveries for the PENDING payment 42 taking
  turns, a successful one and one with \<^verbatim>\<open>error=-9\<close>, both read the payment as PENDING; the
  first then makes it PAID, and the second, on what it had read, makes the PAID payment
  CANCELED.
\<close>

theorem terminal_status_left:
  "clickComplete_until_update env0 paymentRepo (sign_complete complete_unsigned)
     [payment42\<lparr>status := CANCELED\<rparr>] =
     UpdateThenReply 42 PAID (JStr ''7'')
       (complete_ok (sign_complete complete_unsigned) (payment42\<lparr>status := CANCELED\<rparr>)) \<and>
   snd (clickComplete env0 paymentRepo (sign_complete complete_unsigned)
          [payment42\<lparr>status := CANCELED\<rparr>]) =
     [payment42\<lparr>click_payment_id := JStr ''7'', status := PAID\<rparr>] \<and>
   snd (clickComplete env0 paymentRepo (sign_complete complete_unsigned)
          [payment42\<lparr>status := FAILED\<rparr>]) =
     [payment42\<lparr>click_payment_id := JStr ''7'', status := PAID\<rparr>] \<and>
   snd (syncPaymentStatusFromClick env0 paymentRepo
          (gateway_answering (Responded True 200
             (PayloadJson [(''payment_id'', JNum (Fin 7)), (''payment_status'', JNum (Fin 0))])))
          (Inr 42) [payment42\<lparr>click_payment_id := JStr ''7'', status := PAID\<rparr>]) =
     [payment42\<lparr>click_payment_id := JNum (Fin 7), status := PENDING\<rparr>] \<and>
   fst (snd (snd (run env0 paymentRepo [First, Second, First]
      (Arrived (sign_complete complete_unsigned),
       Arrived (sign_complete (complete_unsigned\<lparr>error := JStr ''-9''\<rparr>)),
       [payment42], [])))) =
     [payment42\<lparr>click_payment_id := JStr ''7'', status := PAID\<rparr>] \<and>
   snd (snd (run env0 paymentRepo [First, Second, First, Second]
      (Arrived (sign_complete complete_unsigned),
       Arrived (sign_complete (complete_unsigned\<lparr>error := JStr ''-9''\<rparr>)),
       [payment42], []))) =
     ([payment42\<lparr>click_payment_id := JStr ''7'', status := CANCELED\<rparr>],
      [(42, PAID), (42, CANCELED)])"
proof -
  have c: "clickComplete_until_update env0 paymentRepo (sign_complete complete_unsigned)
     [payment42\<lparr>status := CANCELED\<rparr>] =
     UpdateThenReply 42 PAID (JStr ''7'')
       (complete_ok (sign_complete complete_unsigned) (payment42\<lparr>status := CANCELED\<rparr>))"
    using until_update_accept [OF example_completes, of paymentRepo
        "[payment42\<lparr>status := CANCELED\<rparr>]" CANCELED] example_read [of CANCELED]
    by simp (simp add: example_defs)
  have u: "clickComplete_until_update env0 paymentRepo (sign_complete complete_unsigned)
     [payment42] =
     UpdateThenReply 42 PAID (JStr ''7'')
       (complete_ok (sign_complete complete_unsigned) payment42)"
    using until_update_accept [OF example_completes_pending example_read_pending]
    by (simp add: payment42_def) (simp add: example_defs)
  have w: "fst (updatePaymentStatusById paymentRepo [payment42] 42 s (JStr ''7'')) =
      [payment42\<lparr>click_payment_id := JStr ''7'', status := s\<rparr>]"
    "fst (updatePaymentStatusById paymentRepo
        [payment42\<lparr>click_payment_id := JStr ''7'', status := PAID\<rparr>] 42 s (JStr ''7'')) =
      [payment42\<lparr>click_payment_id := JStr ''7'', status := s\<rparr>]" for s
    by (simp_all add: example_defs store_defs)
  have r3: "fst (snd (snd (run env0 paymentRepo [First, Second, First]
      (Arrived (sign_complete complete_unsigned),
       Arrived (sign_complete (complete_unsigned\<lparr>error := JStr ''-9''\<rparr>)),
       [payment42], [])))) =
     [payment42\<lparr>click_payment_id := JStr ''7'', status := PAID\<rparr>]"
    by (simp add: u example_provider_error_until_update w)
  have r4: "snd (snd (run env0 paymentRepo [First, Second, First, Second]
      (Arrived (sign_complete complete_unsigned),
       Arrived (sign_complete (complete_unsigned\<lparr>error := JStr ''-9''\<rparr>)),
       [payment42], []))) =
     ([payment42\<lparr>click_payment_id := JStr ''7'', status := CANCELED\<rparr>],
      [(42, PAID), (42, CANCELED)])"
    by (simp add: u example_provider_error_until_update w)
  show ?thesis
    using c r3 r4 by (simp add: example_complete example_sync)
qed

section \<open>Gateway failures\<close>

text \<open>
  The options \<^verbatim>\<open>clickApiRequest\<close> passes to \<^verbatim>\<open>fetch\<close> hold a method, headers and a body.
\<close>

lemma no_timeout: "\<not> has_timeout (fetch_options auth m j)"
  by (simp add: has_timeout_def fetch_options_def)

text \<open>
  A rejected fetch is rethrown, and a response that is not ok is thrown as the
  \<^verbatim>\<open>CLICK_API_ERROR\<close>.
\<close>

lemma clickApiRequest_rejected:
  assumes "fetch gw path (fetch_options (authHeaderValue gw) m j) = Rejected msg"
  shows "clickApiRequest gw m path j = Inl (FetchError msg)"
  using assms by (simp add: clickApiRequest_def)

lemma clickApiRequest_not_ok:
  assumes "fetch gw path (fetch_options (authHeaderValue gw) m j) = Responded False st payload"
  shows "clickApiRequest gw m path j = Inl (ClickApiError st payload)"
  using assms by (simp add: clickApiRequest_def)

text \<open>
  An exception of the gateway call leaves both handlers before their update.
\<close>

lemma sync_gateway_throws:
  assumes "getPaymentById r db i = Some p"
    and "getPaymentStatusByMerchantTransId gw (click_merchant_trans_id p) = Inl x"
  shows "syncPaymentStatusFromClick e r gw (Inr i) db = (Inl x, db)"
  using assms by (simp add: syncPaymentStatusFromClick_def)

lemma reverse_gateway_throws:
  assumes "getPaymentById r db i = Some p" and "truthy (click_payment_id p)"
    and "clickService_reversePayment gw (click_payment_id p) = Inl x"
  shows "reversePayment r gw (Inr i) db = (Inl x, db)"
  using assms by (simp add: reversePayment_def)

text \<open>
  Claim C9, as amended. The gateway calls made during status synchronization and reversal
  pass no abort signal to \<^verbatim>\<open>fetch\<close>, so the code bounds their time by nothing of its own.
  When the call fails, that is when \<^verbatim>\<open>fetch\<close> rejects (a network failure, or a timeout
  the platform imposes), the operation leaves the store as it is and ends with the
  exception \<^verbatim>\<open>fetch\<close> rejected with: no status is written.
\<close>

theorem gateway_failure_leaves_payment:
  assumes "\<forall>path init. fetch gw path init = Rejected msg"
    and "getPaymentById r db i = Some p"
  shows "syncPaymentStatusFromClick e r gw (Inr i) db = (Inl (FetchError msg), db) \<and>
         (truthy (click_payment_id p) \<longrightarrow>
            reversePayment r gw (Inr i) db = (Inl (FetchError msg), db)) \<and>
         \<not> has_timeout (fetch_options (authHeaderValue gw) ''GET'' None) \<and>
         \<not> has_timeout (fetch_options (authHeaderValue gw) ''DELETE'' None)"
proof -
  have "getPaymentStatusByMerchantTransId gw (click_merchant_trans_id p) = Inl (FetchError msg)"
    using assms(1) by (simp add: getPaymentStatusByMerchantTransId_def clickApiRequest_rejected)
  moreover have "clickService_reversePayment gw (click_payment_id p) = Inl (FetchError msg)"
    using assms(1) by (simp add: clickService_reversePayment_def clickApiRequest_rejected)
  ultimately show ?thesis
    using assms(2) by (simp add: sync_gateway_throws reverse_gateway_throws no_timeout)
qed

text \<open>
  An instance of C9 as amended: synchronization and reversal of the PAID payment 42 against
  a gateway that rejects every request.
\<close>

theorem gateway_failure_leaves_payment_witness:
  "syncPaymentStatusFromClick env0 paymentRepo (gateway_answering (Rejected ''fetch failed''))
     (Inr 42) [payment42\<lparr>click_payment_id := JStr ''7'', status := PAID\<rparr>] =
     (Inl (FetchError ''fetch failed''),
      [payment42\<lparr>click_payment_id := JStr ''7'', status := PAID\<rparr>]) \<and>
   reversePayment paymentRepo (gateway_answering (Rejected ''fetch failed''))
     (Inr 42) [payment42\<lparr>click_payment_id := JStr ''7'', status := PAID\<rparr>] =
     (Inl (FetchError ''fetch failed''),
      [payment42\<lparr>click_payment_id := JStr ''7'', status := PAID\<rparr>])"
proof -
  have "\<forall>path init. fetch (gateway_answering (Rejected ''fetch failed'')) path init =
      Rejected ''fetch failed''"
    by (simp add: gateway_answering_def)
  from gateway_failure_leaves_payment [OF this example_read_by_id(2), where e = env0]
  show ?thesis
    by simp
qed

text \<open>
  Claim C9 as stated fails in its first half: the options of the status request and of the
  reversal request hold no signal. Against the gateway that rejects exactly the requests
  with a signal, synchronization and reversal of the payment 42 both get an answer, and
  the reversal goes on to cancel the payment.
\<close>

theorem gateway_call_without_timeout:
  "\<not> has_timeout (fetch_options (authHeaderValue gateway_probe) ''GET'' None) \<and>
   \<not> has_timeout (fetch_options (authHeaderValue gateway_probe) ''DELETE'' None) \<and>
   fst (syncPaymentStatusFromClick env0 paymentRepo gateway_probe (Inr 42)
          [payment42\<lparr>click_payment_id := JStr ''7'', status := PAID\<rparr>]) =
     Inr (Done (PayloadText ''no signal'')
            (Some (payment42\<lparr>click_payment_id := JStr ''7'', status := PAID\<rparr>))) \<and>
   fst (reversePayment paymentRepo gateway_probe (Inr 42)
          [payment42\<lparr>click_payment_id := JStr ''7'', status := PAID\<rparr>]) =
     Inr (Done (PayloadText ''no signal'')
            (Some (payment42\<lparr>click_payment_id := JStr ''7'', status := CANCELED\<rparr>)))"
proof -
  have probe: "clickApiRequest gateway_probe m path None = Inr (PayloadText ''no signal'')"
    for m path
    by (simp add: clickApiRequest_def gateway_probe_def no_timeout)
  have sync: "fst (syncPaymentStatusFromClick env0 paymentRepo gateway_probe (Inr 42)
          [payment42\<lparr>click_payment_id := JStr ''7'', status := PAID\<rparr>]) =
     Inr (Done (PayloadText ''no signal'')
            (Some (payment42\<lparr>click_payment_id := JStr ''7'', status := PAID\<rparr>)))"
    using sync_after_read [OF example_read_by_id(2) [where g = "JStr ''7''" and s = PAID],
        where gw = gateway_probe and response = "PayloadText ''no signal''" and e = env0]
    by (simp add: getPaymentStatusByMerchantTransId_def probe)
  have rev: "fst (reversePayment paymentRepo gateway_probe (Inr 42)
          [payment42\<lparr>click_payment_id := JStr ''7'', status := PAID\<rparr>]) =
     Inr (Done (PayloadText ''no signal'')
            (Some (payment42\<lparr>click_payment_id := JStr ''7'', status := CANCELED\<rparr>)))"
    by (simp add: reversePayment_def example_read_by_id clickService_reversePayment_def probe)
       (simp add: example_defs store_defs)
  show ?thesis
    using sync rev by (simp add: no_timeout)
qed

section \<open>Two COMPLETE deliveries for one payment\<close>

text \<open>
  Two steps of one delivery, with nothing in between, are the handler.
\<close>

lemma advance_twice:
  "(case advance e r (Arrived b) db of (d, db', u) \<Rightarrow>
      (case advance e r d db' of (d', db'', u') \<Rightarrow> (d', db''))) =
   (Replied (fst (clickComplete e r b db)), snd (clickComplete e r b db))"
  by (cases "clickComplete_until_update e r b db") (simp_all add: clickComplete_def)

text \<open>
  After a PAID update of the payment, a callback that was acceptable for it is answered
  with error -4.
\<close>

lemma until_update_after_paid:
  assumes "update_is_stored r"
    and "getPaymentByMerchantTransId r db (merchant_trans_id b) = Some p"
    and "completes e b p"
  shows "clickComplete_until_update e r b
           (fst (updatePaymentStatusById r db (pay_id p) PAID g)) =
         Reply (clickError (- 4) ''Payment already processed'')"
proof -
  have signed: "complete_signed e b"
    and same: "num_seq (id_num (stored p PAID g)) (num e (merchant_prepare_id b))"
    using assms(3) by (simp_all add: completes_def)
  show ?thesis
    using until_update_paid [OF signed update_is_storedD [OF assms(1,2)] same] by simp
qed

text \<open>
  One delivery after the other, and the four schedules in which both deliveries read the
  payment before either update.
\<close>

lemma run_serial:
  assumes "update_is_stored r"
    and "getPaymentByMerchantTransId r db (merchant_trans_id b1) = Some p"
    and "merchant_trans_id b2 = merchant_trans_id b1"
    and "status p \<noteq> PAID"
    and "completes e b1 p" and "completes e b2 p"
  shows "outcome (run e r [First, First, Second, Second] (Arrived b1, Arrived b2, db, [])) =
           (Replied (complete_ok b1 p),
            Replied (clickError (- 4) ''Payment already processed''), [(pay_id p, PAID)])"
    and "outcome (run e r [Second, Second, First, First] (Arrived b1, Arrived b2, db, [])) =
           (Replied (clickError (- 4) ''Payment already processed''),
            Replied (complete_ok b2 p), [(pay_id p, PAID)])"
proof -
  have r2: "getPaymentByMerchantTransId r db (merchant_trans_id b2) = Some p"
    using assms(2,3) by simp
  note u1 = until_update_accept [OF assms(5) assms(2) assms(4)]
  note u2 = until_update_accept [OF assms(6) r2 assms(4)]
  note v2 = until_update_after_paid [OF assms(1) r2 assms(6), of "click_trans_id b1"]
  note v1 = until_update_after_paid [OF assms(1) assms(2) assms(5), of "click_trans_id b2"]
  show "outcome (run e r [First, First, Second, Second] (Arrived b1, Arrived b2, db, [])) =
           (Replied (complete_ok b1 p),
            Replied (clickError (- 4) ''Payment already processed''), [(pay_id p, PAID)])"
    by (simp add: u1 v2)
  show "outcome (run e r [Second, Second, First, First] (Arrived b1, Arrived b2, db, [])) =
           (Replied (clickError (- 4) ''Payment already processed''),
            Replied (complete_ok b2 p), [(pay_id p, PAID)])"
    by (simp add: u2 v1)
qed

lemma run_interleaved:
  assumes "getPaymentByMerchantTransId r db (merchant_trans_id b1) = Some p"
    and "merchant_trans_id b2 = merchant_trans_id b1"
    and "status p \<noteq> PAID"
    and "completes e b1 p" and "completes e b2 p"
    and "s \<in> set [[First, Second, First, Second], [First, Second, Second, First],
                   [Second, First, First, Second], [Second, First, Second, First]]"
  shows "outcome (run e r s (Arrived b1, Arrived b2, db, [])) =
           (Replied (complete_ok b1 p), Replied (complete_ok b2 p),
            [(pay_id p, PAID), (pay_id p, PAID)])"
proof -
  have r2: "getPaymentByMerchantTransId r db (merchant_trans_id b2) = Some p"
    using assms(1,2) by simp
  note u1 = until_update_accept [OF assms(4) assms(1) assms(3)]
  note u2 = until_update_accept [OF assms(5) r2 assms(3)]
  from assms(6) show ?thesis
    by (auto simp: u1 u2)
qed

text \<open>
  Claim C1, as amended. Take two COMPLETE callbacks for the same merchant transaction id,
  both acceptable for the PENDING payment it names, and any repository that stores the
  update it is given. When one delivery is processed after the other, the first issues the
  PAID update and replies error 0, and the second is answered with error -4: one update is
  issued. In each of the four schedules in which both deliveries have read the payment
  before either update, both deliveries issue the PAID update and both reply error 0. The
  handler writes by an update that names no expected status, after a separate read.
\<close>

theorem two_deliveries_outcomes:
  assumes "update_is_stored r"
    and "getPaymentByMerchantTransId r db (merchant_trans_id b1) = Some p"
    and "merchant_trans_id b2 = merchant_trans_id b1"
    and "status p = PENDING"
    and "completes e b1 p" and "completes e b2 p"
  shows "outcome (run e r [First, First, Second, Second] (Arrived b1, Arrived b2, db, [])) =
           (Replied (complete_ok b1 p),
            Replied (clickError (- 4) ''Payment already processed''), [(pay_id p, PAID)]) \<and>
         outcome (run e r [Second, Second, First, First] (Arrived b1, Arrived b2, db, [])) =
           (Replied (clickError (- 4) ''Payment already processed''),
            Replied (complete_ok b2 p), [(pay_id p, PAID)]) \<and>
         (\<forall>s \<in> set [[First, Second, First, Second], [First, Second, Second, First],
                     [Second, First, First, Second], [Second, First, Second, First]].
            outcome (run e r s (Arrived b1, Arrived b2, db, [])) =
              (Replied (complete_ok b1 p), Replied (complete_ok b2 p),
               [(pay_id p, PAID), (pay_id p, PAID)]))"
proof -
  have np: "status p \<noteq> PAID"
    using assms(4) by simp
  show ?thesis
    using run_serial [OF assms(1-3) np assms(5,6)] run_interleaved [OF assms(2,3) np assms(5,6)]
    by blast
qed

text \<open>
  An instance of C1 as amended: the signed example callback delivered twice for the
  payment 42, one delivery after the other and interleaved.
\<close>

theorem two_deliveries_outcomes_witness:
  "outcome (run env0 paymentRepo [First, First, Second, Second]
      (Arrived (sign_complete complete_unsigned), Arrived (sign_complete complete_unsigned),
       [payment42], [])) =
     (Replied (complete_ok (sign_complete complete_unsigned) payment42),
      Replied (clickError (- 4) ''Payment already processed''), [(42, PAID)]) \<and>
   outcome (run env0 paymentRepo [Second, First, First, Second]
      (Arrived (sign_complete complete_unsigned), Arrived (sign_complete complete_unsigned),
       [payment42], [])) =
     (Replied (complete_ok (sign_complete complete_unsigned) payment42),
      Replied (complete_ok (sign_complete complete_unsigned) payment42),
      [(42, PAID), (42, PAID)])"
proof -
  have "status payment42 = PENDING" "pay_id payment42 = 42"
    by (simp_all add: payment42_def)
  with two_deliveries_outcomes [OF paymentRepo_update_is_stored example_read_pending refl _
      example_completes_pending example_completes_pending]
  show ?thesis
    by simp
qed

text \<open>
  Claim C1 as stated fails: with the two deliveries of the signed example callback taking
  turns, both reply error 0 and the PAID update of the payment 42 is issued twice; no
  delivery is answered with error -4.
\<close>

theorem two_deliveries_both_paid:
  "status payment42 = PENDING \<and>
   outcome (run env0 paymentRepo [First, Second, First, Second]
      (Arrived (sign_complete complete_unsigned), Arrived (sign_complete complete_unsigned),
       [payment42], [])) =
     (Replied [(''error'', JNum (Fin 0)), (''error_note'', JStr ''Success''),
               (''click_trans_id'', JStr ''7''), (''merchant_trans_id'', JStr ''abc''),
               (''merchant_confirm_id'', JNum (Fin 42))],
      Replied [(''error'', JNum (Fin 0)), (''error_note'', JStr ''Success''),
               (''click_trans_id'', JStr ''7''), (''merchant_trans_id'', JStr ''abc''),
               (''merchant_confirm_id'', JNum (Fin 42))],
      [(42, PAID), (42, PAID)])"
proof -
  have "status payment42 \<noteq> PAID"
    by (simp add: payment42_def)
  from run_interleaved [OF example_read_pending refl this example_completes_pending
      example_completes_pending, of "[First, Second, First, Second]"]
  show ?thesis
    by (simp add: complete_ok_def) (simp add: example_defs)
qed

end
